theory Spec2Isabelle
  imports Complex_Main
begin

section \<open>Python exceptions as values\<close>

text \<open>
  The exceptions the modelled functions raise.  A function that can raise returns
  \<open>error + 'a\<close> with \<open>Inl\<close> for the exception.
\<close>

datatype error =
    ValueError
  | IndexError
  | KeyError
  | AttributeError
  | FileNotFoundError
  | RuntimeError
  | OSError

section \<open>NumPy floats\<close>

text \<open>
  The arrays of compute\_umap.py hold IEEE 754 binary floats: \<^verbatim>\<open>float32\<close> (the decoder
  weights and the UMAP output) or \<^verbatim>\<open>float64\<close>.  A float is modelled by the real number
  it stands for, and an arithmetic operation on floats by the exact operation followed by
  \<open>float_round\<close>: rounding to the nearest number with the significand of the dtype, a tie
  to the even significand, with the fixed spacing of the subnormal numbers below the
  smallest exponent.  Infinities and NaN (overflow, division by zero) are not modelled.
\<close>

datatype dtype = Float32 | Float64

fun significand_bits :: "dtype \<Rightarrow> int" where
  "significand_bits Float32 = 24"
| "significand_bits Float64 = 53"

fun min_exponent :: "dtype \<Rightarrow> int" where
  "min_exponent Float32 = - 126"
| "min_exponent Float64 = - 1022"

definition pow2 :: "int \<Rightarrow> real" where
  "pow2 k = (if 0 \<le> k then 2 ^ nat k else 1 / 2 ^ nat (- k))"

definition round_half_even :: "real \<Rightarrow> int" where
  "round_half_even y =
     (let f = \<lfloor>y\<rfloor> in
      if y - of_int f < 1 / 2 then f
      else if 1 / 2 < y - of_int f then f + 1
      else if even f then f else f + 1)"

definition float_round :: "dtype \<Rightarrow> real \<Rightarrow> real" where
  "float_round dt x =
     (if x = 0 then 0
      else (let e = max \<lfloor>log 2 \<bar>x\<bar>\<rfloor> (min_exponent dt);
                ulp = pow2 (e - significand_bits dt + 1)
            in of_int (round_half_even (x / ulp)) * ulp))"

text \<open>
  A Python float (a double) that meets a NumPy scalar or array of dtype \<open>dt\<close> in an
  operation is converted to \<open>dt\<close> first (NumPy 2): unchanged for \<^verbatim>\<open>float64\<close>, rounded for
  \<^verbatim>\<open>float32\<close>.
\<close>

fun as_dtype :: "dtype \<Rightarrow> real \<Rightarrow> real" where
  "as_dtype Float64 x = x"
| "as_dtype Float32 x = float_round Float32 x"

section \<open>The rate limiter of \<open>NeuronpediaClient\<close> (fetch\_labels.py)\<close>

text \<open>
  \<^verbatim>\<open>_wait_for_rate_limit\<close> runs under \<^verbatim>\<open>async with self._lock\<close>; the lock is held
  for the whole body, the sleep included, so the calls of one client run one after the
  other and each is a function from the list \<^verbatim>\<open>self._request_times\<close> to the new list.

  Time is a real number of seconds (the floats of \<^verbatim>\<open>time.time()\<close>, taken as exact).
  \<open>now\<close> is the first reading of the clock.  \<open>lag\<close> is the time that passes, beyond
  the requested sleep, before the second reading \<^verbatim>\<open>time.time()\<close> in the \<^verbatim>\<open>append\<close>.
  The result is what the call returns (the recorded timestamp, or the exception it
  raises) and the list it leaves in \<^verbatim>\<open>self._request_times\<close>.  With an empty list and
  \<^verbatim>\<open>rate_limit <= 0\<close> the read \<^verbatim>\<open>self._request_times[0]\<close> raises \<^verbatim>\<open>IndexError\<close>, after
  the trimmed list has been stored.
\<close>

definition wait_for_rate_limit ::
  "int \<Rightarrow> real \<Rightarrow> real \<Rightarrow> real list \<Rightarrow> (error + real) \<times> real list" where
  "wait_for_rate_limit rate_limit now lag request_times =
     (let kept = filter (\<lambda>t. now - t < 60) request_times in
      if rate_limit \<le> int (length kept) then
        (case kept of
           [] \<Rightarrow> (Inl IndexError, kept)
         | t0 # _ \<Rightarrow>
             (let sleep_time = 60 - (now - t0) + 1 / 10;
                  woke = (if 0 < sleep_time then now + sleep_time else now);
                  stamp = woke + lag
              in (Inr stamp, kept @ [stamp])))
      else (let stamp = now + lag in (Inr stamp, kept @ [stamp])))"

text \<open>
  A sequence of calls on one client, in the order in which they take the lock.  Each
  call is given \<open>(gap, lag)\<close>: \<open>gap\<close> is the time between the previous reading of the
  clock and this call's reading of \<open>now\<close>.  The result lists what each call returned.
\<close>

fun acquire_calls ::
  "int \<Rightarrow> real \<Rightarrow> real list \<Rightarrow> (real \<times> real) list \<Rightarrow> (error + real) list \<times> real list" where
  "acquire_calls rate_limit clock request_times [] = ([], request_times)"
| "acquire_calls rate_limit clock request_times ((gap, lag) # calls) =
     (let now = clock + gap;
          (r, kept) = wait_for_rate_limit rate_limit now lag request_times;
          clock' = (case r of Inl _ \<Rightarrow> now | Inr stamp \<Rightarrow> stamp);
          (rs, final) = acquire_calls rate_limit clock' kept calls
      in (r # rs, final))"

text \<open>The timestamps of the calls that were admitted, in order.\<close>

fun admitted :: "(error + real) list \<Rightarrow> real list" where
  "admitted [] = []"
| "admitted (Inl _ # rs) = admitted rs"
| "admitted (Inr stamp # rs) = stamp # admitted rs"

text \<open>
  The number of the timestamps \<open>stamps\<close> that lie in the 60 seconds that end at \<open>t\<close>.
\<close>

definition window_count :: "real \<Rightarrow> real list \<Rightarrow> nat" where
  "window_count t stamps = length (filter (\<lambda>s. t - s < 60) stamps)"


subsection \<open>Concurrent callers\<close>









section \<open>\<open>NeuronpediaClient.fetch_feature\<close> (fetch\_labels.py)\<close>

text \<open>
  What one \<^verbatim>\<open>session.get\<close> can bring: a status 200 whose body parses to a payload, a
  status 200 whose \<^verbatim>\<open>response.json()\<close> raises, 404, 429 with its \<^verbatim>\<open>Retry-After\<close> header,
  any other status, or an exception of the request itself (timeout, transport failure).
  The header is absent, a text that \<^verbatim>\<open>int\<close> parses, or a text on which \<^verbatim>\<open>int\<close> raises
  \<^verbatim>\<open>ValueError\<close> (an HTTP date, for example).
\<close>

datatype retry_after = NoHeader | Seconds int | NotAnInteger

datatype 'p response =
    Status200 'p
  | Status200BadBody
  | Status404
  | Status429 retry_after
  | StatusOther
  | Raised

text \<open>\<^verbatim>\<open>int(response.headers.get("Retry-After", "60"))\<close>\<close>

fun retry_after_seconds :: "retry_after \<Rightarrow> error + int" where
  "retry_after_seconds NoHeader = Inr 60"
| "retry_after_seconds (Seconds n) = Inr n"
| "retry_after_seconds NotAnInteger = Inl ValueError"

text \<open>What the fetcher does, in order: the requests it sends and the sleeps it takes.\<close>

datatype action = Request nat | Sleep real

record client =
  rate_limit :: int
  retry_attempts :: int
  retry_delay :: real

text \<open>
  The loop \<^verbatim>\<open>for attempt in range(self.retry_attempts)\<close> over the attempts still to
  run.  \<open>server attempt\<close> is the outcome of the request sent in that attempt.  The result
  is the value returned (\<open>None\<close> is Python's \<^verbatim>\<open>None\<close>: the function returns it for a 404,
  for exhausted retries and when the loop runs out) and the actions taken.

  Status 429 sleeps and goes on to the next iteration of the \<^verbatim>\<open>for\<close> loop.  Every
  exception raised inside the \<^verbatim>\<open>try\<close> (by the request, by \<^verbatim>\<open>response.json()\<close>, by \<^verbatim>\<open>int\<close>
  on the header) is handled like a status other than 200, 404 and 429: \<^verbatim>\<open>return None\<close> in
  the last attempt, a sleep of \<^verbatim>\<open>retry_delay * 2 ** attempt\<close> otherwise.
\<close>

fun fetch_attempts ::
  "client \<Rightarrow> (nat \<Rightarrow> 'p response) \<Rightarrow> nat list \<Rightarrow> 'p option \<times> action list" where
  "fetch_attempts c server [] = (None, [])"
| "fetch_attempts c server (attempt # later) =
     (let (res, acts) = fetch_attempts c server later;
          backoff =
            (if int attempt = retry_attempts c - 1 then (None, [Request attempt])
             else (res, Request attempt # Sleep (retry_delay c * 2 ^ attempt) # acts))
      in case server attempt of
           Status200 p \<Rightarrow> (Some p, [Request attempt])
         | Status200BadBody \<Rightarrow> backoff
         | Status404 \<Rightarrow> (None, [Request attempt])
         | Status429 h \<Rightarrow>
             (case retry_after_seconds h of
                Inr n \<Rightarrow> (res, Request attempt # Sleep (of_int n) # acts)
              | Inl _ \<Rightarrow> backoff)
         | StatusOther \<Rightarrow> backoff
         | Raised \<Rightarrow> backoff)"

text \<open>
  \<^verbatim>\<open>fetch_feature\<close>: one call of the rate limiter, outside the \<^verbatim>\<open>try\<close> (its exception
  reaches the caller), then the loop over \<^verbatim>\<open>range(self.retry_attempts)\<close>, which is empty
  when \<^verbatim>\<open>retry_attempts <= 0\<close>.
\<close>

definition fetch_feature ::
  "client \<Rightarrow> real \<Rightarrow> real \<Rightarrow> real list \<Rightarrow> (nat \<Rightarrow> 'p response)
     \<Rightarrow> (error + 'p option \<times> action list) \<times> real list" where
  "fetch_feature c now lag request_times server =
     (case wait_for_rate_limit (rate_limit c) now lag request_times of
        (Inl e, kept) \<Rightarrow> (Inl e, kept)
      | (Inr _, kept) \<Rightarrow>
          (Inr (fetch_attempts c server [0..<nat (retry_attempts c)]), kept))"

text \<open>A resource that gives the same outcome to every request.\<close>

definition always :: "'p response \<Rightarrow> nat \<Rightarrow> 'p response" where
  "always r attempt = r"

text \<open>A resource that is rate limited at the first request and found at the next.\<close>

definition rate_limited_then_found :: "nat \<Rightarrow> nat response" where
  "rate_limited_then_found attempt = (if attempt = 0 then Status429 (Seconds 7) else Status200 5)"

text \<open>The requests among the actions taken, by attempt number.\<close>

fun requests :: "action list \<Rightarrow> nat list" where
  "requests [] = []"
| "requests (Request a # acts) = a # requests acts"
| "requests (Sleep _ # acts) = requests acts"

text \<open>
  The invariant of a run of calls: \<open>h\<close> is every timestamp recorded so far, oldest
  first, \<open>clock\<close> the last reading of the clock and \<open>ts\<close> the list the client holds.
  Within the 60 seconds before \<open>clock\<close> the client's list and the history agree, and
  at most \<open>R\<close> timestamps lie there.
\<close>

definition limiter_inv :: "int \<Rightarrow> real \<Rightarrow> real list \<Rightarrow> real list \<Rightarrow> bool" where
  "limiter_inv R clock ts h \<longleftrightarrow>
     (\<forall>t\<in>set h. t \<le> clock) \<and> sorted h \<and>
     filter (\<lambda>t. clock - t < 60) h = filter (\<lambda>t. clock - t < 60) ts \<and>
     int (length (filter (\<lambda>t. clock - t < 60) ts)) \<le> R"

section \<open>The pipeline: download, positions, labels, export (run\_pipeline.py)\<close>

subsection \<open>Configuration (config.py)\<close>

record model_config =
  num_layers :: int
  features_per_layer :: int
  decoder_dim :: int

text \<open>The dictionary \<^verbatim>\<open>MODELS\<close>, with the fields the modelled functions read.\<close>

definition MODELS :: "string \<Rightarrow> model_config option" where
  "MODELS =
     [''gemma-2-2b'' \<mapsto> \<lparr>num_layers = 26, features_per_layer = 16384, decoder_dim = 2304\<rparr>,
      ''gemma-2-9b'' \<mapsto> \<lparr>num_layers = 42, features_per_layer = 16384, decoder_dim = 3584\<rparr>]"

subsection \<open>Files, external calls and the world\<close>

text \<open>
  The files the pipeline reads and writes: under \<^verbatim>\<open>cache_dir/model_id/layer_N/\<close> the
  four cached artifacts, under \<^verbatim>\<open>output_dir/model_id/\<close> the layer's JSON and the
  manifest.  The cache and output directories are fixed for a run.
\<close>

datatype cache_file = DecoderVectors | Positions | Edges | Labels

datatype path =
    Cache string int cache_file
  | LayerOutput string int
  | Manifest string

text \<open>
  What a run does to the outside: the downloads, embeddings and label batches it
  starts, and the files it writes, in order.
\<close>

datatype event =
    Download string int
  | Embed string int
  | FetchBatch string int
  | Write path

record 'a world =
  files :: "path \<Rightarrow> 'a option"
  events :: "event list"

text \<open>
  The collaborators outside the repository, as the pipeline sees them.  \<open>hf_vectors\<close>
  is the work of \<^verbatim>\<open>download_decoder_vectors\<close> after its cache check (the query of the
  repository, the download, the extraction of \<^verbatim>\<open>W_dec\<close>, the normalisation): the vectors,
  or the exception raised on the way.  \<open>umap_edges\<close> is UMAP, the normalisation of the
  positions and the edge computation on loaded vectors: positions and edges, or an
  exception.  \<open>label_batch\<close> is the batch of Neuronpedia requests with the extraction
  of the labels.  \<open>layer_json\<close> and \<open>manifest_json\<close> build the bytes to export.
  \<open>write_error\<close> says which file writes fail (a full disk, a path that cannot be
  written), and with which exception; reading a file that exists succeeds.
\<close>

record 'a externals =
  hf_vectors :: "string \<Rightarrow> int \<Rightarrow> error + 'a"
  umap_edges :: "'a \<Rightarrow> error + 'a \<times> 'a"
  label_batch :: "string \<Rightarrow> int \<Rightarrow> int \<Rightarrow> error + 'a"
  layer_json :: "'a \<Rightarrow> 'a option \<Rightarrow> 'a option \<Rightarrow> 'a"
  manifest_json :: "int list \<Rightarrow> 'a"
  write_error :: "path \<Rightarrow> error option"

text \<open>A function of the pipeline: it returns a value or raises, and changes the world.\<close>

type_synonym ('a, 'r) action_on = "'a world \<Rightarrow> (error + 'r) \<times> 'a world"

definition log_event :: "event \<Rightarrow> 'a world \<Rightarrow> 'a world" where
  "log_event e w = w\<lparr>events := events w @ [e]\<rparr>"

text \<open>\<^verbatim>\<open>np.save\<close>, \<^verbatim>\<open>json.dump\<close> and the writes of the exporter.\<close>

definition save :: "'a externals \<Rightarrow> path \<Rightarrow> 'a \<Rightarrow> ('a, unit) action_on" where
  "save ext p v w =
     (case write_error ext p of
        Some e \<Rightarrow> (Inl e, w)
      | None \<Rightarrow> (Inr (), log_event (Write p) (w\<lparr>files := (files w)(p \<mapsto> v)\<rparr>)))"

text \<open>Sequencing: the second action runs only if the first did not raise.\<close>

definition and_then :: "('a, 'r) action_on \<Rightarrow> ('a, 's) action_on \<Rightarrow> ('a, 's) action_on" where
  "and_then f g w = (case f w of (Inl e, w') \<Rightarrow> (Inl e, w') | (Inr _, w') \<Rightarrow> g w')"

subsection \<open>\<open>download_decoder_vectors\<close> (download\_sae.py)\<close>

text \<open>
  The function has no \<^verbatim>\<open>force\<close> parameter: when \<^verbatim>\<open>decoder_vectors.npy\<close> exists it
  loads and returns it.
\<close>

definition download_decoder_vectors :: "'a externals \<Rightarrow> string \<Rightarrow> int \<Rightarrow> ('a, 'a) action_on" where
  "download_decoder_vectors ext model_id layer w =
     (case MODELS model_id of
        None \<Rightarrow> (Inl ValueError, w)
      | Some cfg \<Rightarrow>
          if layer < 0 \<or> num_layers cfg \<le> layer then (Inl ValueError, w)
          else (case files w (Cache model_id layer DecoderVectors) of
                  Some v \<Rightarrow> (Inr v, w)
                | None \<Rightarrow>
                    (case hf_vectors ext model_id layer of
                       Inl e \<Rightarrow> (Inl e, log_event (Download model_id layer) w)
                     | Inr v \<Rightarrow>
                         (case save ext (Cache model_id layer DecoderVectors) v
                                 (log_event (Download model_id layer) w) of
                            (Inl e, w') \<Rightarrow> (Inl e, w')
                          | (Inr _, w') \<Rightarrow> (Inr v, w')))))"

subsection \<open>\<open>compute_layer_positions\<close> (compute\_umap.py)\<close>

definition compute_layer_positions ::
  "'a externals \<Rightarrow> string \<Rightarrow> int \<Rightarrow> bool \<Rightarrow> ('a, 'a \<times> 'a) action_on" where
  "compute_layer_positions ext model_id layer force_recompute w =
     (case (force_recompute, files w (Cache model_id layer Positions),
            files w (Cache model_id layer Edges)) of
        (False, Some pos, Some edg) \<Rightarrow> (Inr (pos, edg), w)
      | _ \<Rightarrow>
          (case files w (Cache model_id layer DecoderVectors) of
             None \<Rightarrow> (Inl FileNotFoundError, w)
           | Some vectors \<Rightarrow>
               (case umap_edges ext vectors of
                  Inl e \<Rightarrow> (Inl e, log_event (Embed model_id layer) w)
                | Inr (pos, edg) \<Rightarrow>
                    (case and_then (save ext (Cache model_id layer Positions) pos)
                                   (save ext (Cache model_id layer Edges) edg)
                                   (log_event (Embed model_id layer) w) of
                       (Inl e, w') \<Rightarrow> (Inl e, w')
                     | (Inr _, w') \<Rightarrow> (Inr (pos, edg), w')))))"

subsection \<open>\<open>fetch_layer_labels\<close> (fetch\_labels.py)\<close>

text \<open>
  The first statement of \<^verbatim>\<open>fetch_layer_labels\<close> after reading the default
  configuration is \<^verbatim>\<open>config.validate()\<close>.  The dataclass \<^verbatim>\<open>NeuronpediaConfig\<close> of
  config.py defines \<^verbatim>\<open>__post_init__\<close> and no other method, so the attribute lookup raises
  \<^verbatim>\<open>AttributeError\<close>.
\<close>

definition neuronpedia_config_validate :: "error + unit" where
  "neuronpedia_config_validate = Inl AttributeError"

definition fetch_layer_labels ::
  "'a externals \<Rightarrow> string \<Rightarrow> int \<Rightarrow> int \<Rightarrow> bool \<Rightarrow> ('a, 'a) action_on" where
  "fetch_layer_labels ext model_id layer top_k force_refetch w =
     (case neuronpedia_config_validate of
        Inl e \<Rightarrow> (Inl e, w)
      | Inr _ \<Rightarrow>
          (case (force_refetch, files w (Cache model_id layer Labels)) of
             (False, Some cached) \<Rightarrow> (Inr cached, w)
           | _ \<Rightarrow>
               (case MODELS model_id of
                  None \<Rightarrow> (Inl ValueError, w)
                | Some cfg \<Rightarrow>
                    (case label_batch ext model_id layer (min top_k (features_per_layer cfg)) of
                       Inl e \<Rightarrow> (Inl e, log_event (FetchBatch model_id layer) w)
                     | Inr labels \<Rightarrow>
                         (case save ext (Cache model_id layer Labels) labels
                                 (log_event (FetchBatch model_id layer) w) of
                            (Inl e, w') \<Rightarrow> (Inl e, w')
                          | (Inr _, w') \<Rightarrow> (Inr labels, w'))))))"

subsection \<open>\<open>export_layer\<close> and \<open>export_manifest\<close> (export\_layer.py)\<close>

definition export_layer :: "'a externals \<Rightarrow> string \<Rightarrow> int \<Rightarrow> bool \<Rightarrow> ('a, unit) action_on" where
  "export_layer ext model_id layer force_reexport w =
     (if files w (LayerOutput model_id layer) \<noteq> None \<and> \<not> force_reexport then (Inr (), w)
      else (case files w (Cache model_id layer Positions) of
              None \<Rightarrow> (Inl FileNotFoundError, w)
            | Some pos \<Rightarrow>
                (case MODELS model_id of
                   None \<Rightarrow> (Inl ValueError, w)
                 | Some cfg \<Rightarrow>
                     save ext (LayerOutput model_id layer)
                       (layer_json ext pos (files w (Cache model_id layer Edges))
                          (files w (Cache model_id layer Labels))) w)))"

definition export_manifest :: "'a externals \<Rightarrow> string \<Rightarrow> int list \<Rightarrow> ('a, unit) action_on" where
  "export_manifest ext model_id layers w =
     (case MODELS model_id of
        None \<Rightarrow> (Inl ValueError, w)
      | Some cfg \<Rightarrow>
          save ext (Manifest model_id)
            (manifest_json ext
               (filter (\<lambda>layer. files w (LayerOutput model_id layer) \<noteq> None) (sort layers))) w)"

subsection \<open>\<open>run_layer_pipeline\<close>, \<open>run_pipeline\<close> and \<open>main\<close> (run\_pipeline.py)\<close>

text \<open>The four steps inside the \<^verbatim>\<open>try\<close> of \<^verbatim>\<open>run_layer_pipeline\<close>.\<close>

definition step_vectors :: "'a externals \<Rightarrow> string \<Rightarrow> int \<Rightarrow> bool \<Rightarrow> ('a, unit) action_on" where
  "step_vectors ext model_id layer force w =
     (if force \<or> files w (Cache model_id layer DecoderVectors) = None
      then (case download_decoder_vectors ext model_id layer w of
              (Inl e, w') \<Rightarrow> (Inl e, w') | (Inr _, w') \<Rightarrow> (Inr (), w'))
      else (Inr (), w))"

definition step_positions :: "'a externals \<Rightarrow> string \<Rightarrow> int \<Rightarrow> bool \<Rightarrow> ('a, unit) action_on" where
  "step_positions ext model_id layer force w =
     (if force \<or> files w (Cache model_id layer Positions) = None
      then (case compute_layer_positions ext model_id layer force w of
              (Inl e, w') \<Rightarrow> (Inl e, w') | (Inr _, w') \<Rightarrow> (Inr (), w'))
      else (Inr (), w))"

definition step_labels ::
  "'a externals \<Rightarrow> string \<Rightarrow> int \<Rightarrow> int \<Rightarrow> bool \<Rightarrow> bool \<Rightarrow> ('a, unit) action_on" where
  "step_labels ext model_id layer top_k_labels skip_labels force w =
     (if \<not> skip_labels \<and> (force \<or> files w (Cache model_id layer Labels) = None)
      then (case fetch_layer_labels ext model_id layer top_k_labels force w of
              (Inl e, w') \<Rightarrow> (Inl e, w') | (Inr _, w') \<Rightarrow> (Inr (), w'))
      else (Inr (), w))"

definition step_export :: "'a externals \<Rightarrow> string \<Rightarrow> int \<Rightarrow> bool \<Rightarrow> ('a, unit) action_on" where
  "step_export ext model_id layer force w = export_layer ext model_id layer force w"

record options =
  top_k_labels :: int
  skip_labels :: bool
  force :: bool

text \<open>
  \<^verbatim>\<open>run_layer_pipeline\<close>: the four steps in order; \<^verbatim>\<open>except Exception\<close> turns an exception
  of any step into the result \<^verbatim>\<open>False\<close>, in the world the step left.
\<close>

definition run_layer_pipeline ::
  "'a externals \<Rightarrow> options \<Rightarrow> string \<Rightarrow> int \<Rightarrow> 'a world \<Rightarrow> bool \<times> 'a world" where
  "run_layer_pipeline ext opts model_id layer w =
     (case and_then (step_vectors ext model_id layer (force opts))
            (and_then (step_positions ext model_id layer (force opts))
              (and_then (step_labels ext model_id layer (top_k_labels opts) (skip_labels opts) (force opts))
                (step_export ext model_id layer (force opts)))) w of
        (Inl e, w') \<Rightarrow> (False, w')
      | (Inr _, w') \<Rightarrow> (True, w'))"

text \<open>
  The loop \<^verbatim>\<open>for i, layer in enumerate(layers)\<close> of \<^verbatim>\<open>run_pipeline\<close>: the layers that
  succeeded, the layers that failed, and the world after the last layer.
\<close>

fun process_layers ::
  "'a externals \<Rightarrow> options \<Rightarrow> string \<Rightarrow> int list \<Rightarrow> 'a world \<Rightarrow> int list \<times> int list \<times> 'a world" where
  "process_layers ext opts model_id [] w = ([], [], w)"
| "process_layers ext opts model_id (layer # layers) w =
     (let (success, w1) = run_layer_pipeline ext opts model_id layer w;
          (successful, failed, w2) = process_layers ext opts model_id layers w1
      in if success then (layer # successful, failed, w2) else (successful, layer # failed, w2))"

record summary =
  successful :: "int list"
  failed :: "int list"

text \<open>
  \<^verbatim>\<open>run_pipeline\<close>.  Before the loop it raises \<^verbatim>\<open>ValueError\<close> for an unknown model, and
  the banner prints \<^verbatim>\<open>min(layers)\<close>, which raises \<^verbatim>\<open>ValueError\<close> on an empty list.  After
  the loop the manifest is exported when a layer succeeded, outside any \<^verbatim>\<open>try\<close>.
\<close>

definition run_pipeline ::
  "'a externals \<Rightarrow> options \<Rightarrow> string \<Rightarrow> int list option \<Rightarrow> ('a, summary) action_on" where
  "run_pipeline ext opts model_id layers_arg w =
     (case MODELS model_id of
        None \<Rightarrow> (Inl ValueError, w)
      | Some cfg \<Rightarrow>
          (let layers = (case layers_arg of None \<Rightarrow> [0..num_layers cfg - 1] | Some ls \<Rightarrow> ls) in
           if layers = [] then (Inl ValueError, w)
           else (case process_layers ext opts model_id layers w of
                   (succeeded, not_succeeded, w1) \<Rightarrow>
                     if succeeded \<noteq> []
                     then (case export_manifest ext model_id succeeded w1 of
                             (Inl e, w2) \<Rightarrow> (Inl e, w2)
                           | (Inr _, w2) \<Rightarrow>
                               (Inr \<lparr>successful = succeeded, failed = not_succeeded\<rparr>, w2))
                     else (Inr \<lparr>successful = succeeded, failed = not_succeeded\<rparr>, w1))))"

text \<open>
  \<^verbatim>\<open>main\<close>, from the parsed arguments on: the exit status of the process.  An
  exception that leaves \<^verbatim>\<open>run_pipeline\<close> ends the process with status 1, as
  \<^verbatim>\<open>sys.exit(1)\<close> does when the summary lists a failed layer.
\<close>

definition main_exit ::
  "'a externals \<Rightarrow> options \<Rightarrow> string \<Rightarrow> int list option \<Rightarrow> 'a world \<Rightarrow> int \<times> 'a world" where
  "main_exit ext opts model_id layers_arg w =
     (case run_pipeline ext opts model_id layers_arg w of
        (Inl e, w') \<Rightarrow> (1, w')
      | (Inr result, w') \<Rightarrow> (if failed result \<noteq> [] then 1 else 0, w'))"

text \<open>Concrete collaborators and worlds, for the evaluations below.\<close>

definition empty_world :: "nat world" where
  "empty_world = \<lparr>files = (\<lambda>p. None), events = []\<rparr>"

definition sample_externals :: "nat externals" where
  "sample_externals =
     \<lparr>hf_vectors = (\<lambda>model_id layer. Inr 1),
      umap_edges = (\<lambda>vectors. Inr (2, 3)),
      label_batch = (\<lambda>model_id layer top_k. Inr 4),
      layer_json = (\<lambda>pos edg labels. 5),
      manifest_json = (\<lambda>layers. 6),
      write_error = (\<lambda>p. None)\<rparr>"

definition manifest_unwritable :: "nat externals" where
  "manifest_unwritable =
     sample_externals\<lparr>write_error := (\<lambda>p. case p of Manifest m \<Rightarrow> Some OSError | _ \<Rightarrow> None)\<rparr>"

definition cached_vectors_world :: "nat world" where
  "cached_vectors_world =
     \<lparr>files = [Cache ''gemma-2-2b'' 12 DecoderVectors \<mapsto> 7], events = []\<rparr>"

definition sample_options :: options where
  "sample_options = \<lparr>top_k_labels = 1000, skip_labels = True, force = False\<rparr>"

definition forced_options :: options where
  "forced_options = \<lparr>top_k_labels = 1000, skip_labels = True, force = True\<rparr>"

section \<open>Positions and edges (compute\_umap.py)\<close>

subsection \<open>\<open>normalize_positions\<close>\<close>

text \<open>
  Positions are an array of shape \<open>(N, 3)\<close> and dtype \<open>dt\<close>: a list of triples of
  floats.
\<close>

type_synonym vec3 = "real \<times> real \<times> real"

definition coords :: "vec3 \<Rightarrow> real list" where
  "coords p = (case p of (x, y, z) \<Rightarrow> [x, y, z])"

text \<open>The sum of a column, row after row, each addition rounded.\<close>

definition float_sum :: "dtype \<Rightarrow> real list \<Rightarrow> real" where
  "float_sum dt xs = foldl (\<lambda>acc v. float_round dt (acc + v)) 0 xs"

definition axis_sums :: "dtype \<Rightarrow> vec3 list \<Rightarrow> vec3" where
  "axis_sums dt ps =
     (float_sum dt (map (\<lambda>(x, y, z). x) ps), float_sum dt (map (\<lambda>(x, y, z). y) ps),
      float_sum dt (map (\<lambda>(x, y, z). z) ps))"

text \<open>\<^verbatim>\<open>positions.mean(axis=0)\<close>, for a non-empty array: the sums divided by \<open>N\<close>.\<close>

definition axis_mean :: "dtype \<Rightarrow> vec3 list \<Rightarrow> vec3" where
  "axis_mean dt ps =
     (case axis_sums dt ps of (sx, sy, sz) \<Rightarrow>
        (float_round dt (sx / real (length ps)), float_round dt (sy / real (length ps)),
         float_round dt (sz / real (length ps))))"

text \<open>\<^verbatim>\<open>positions - positions.mean(axis=0)\<close>\<close>

definition center :: "dtype \<Rightarrow> vec3 list \<Rightarrow> vec3 list" where
  "center dt ps =
     (case axis_mean dt ps of (mx, my, mz) \<Rightarrow>
        map (\<lambda>(x, y, z).
               (float_round dt (x - mx), float_round dt (y - my), float_round dt (z - mz))) ps)"

text \<open>\<^verbatim>\<open>positions * k\<close>\<close>

definition scale :: "dtype \<Rightarrow> real \<Rightarrow> vec3 list \<Rightarrow> vec3 list" where
  "scale dt k ps =
     map (\<lambda>(x, y, z). (float_round dt (x * k), float_round dt (y * k), float_round dt (z * k))) ps"

text \<open>\<^verbatim>\<open>np.abs(positions).max()\<close>, for a non-empty array (no rounding: both are exact).\<close>

definition max_abs_coord :: "vec3 list \<Rightarrow> real" where
  "max_abs_coord ps = Max (set (concat (map (\<lambda>p. map abs (coords p)) ps)))"

text \<open>
  \<^verbatim>\<open>normalize_positions\<close>.  On an empty array the maximum raises \<^verbatim>\<open>ValueError\<close> (a
  reduction of a zero-size array).  Of \<^verbatim>\<open>target_range\<close> only the upper end is read; the
  quotient \<^verbatim>\<open>target_max / max_abs\<close> is rounded, and so is every product.  Nothing clips
  the result.
\<close>

definition normalize_positions ::
  "dtype \<Rightarrow> vec3 list \<Rightarrow> real \<times> real \<Rightarrow> error + vec3 list" where
  "normalize_positions dt positions target_range =
     (if positions = [] then Inl ValueError
      else (let centered = center dt positions;
                max_abs = max_abs_coord centered
            in if 0 < max_abs
               then Inr (scale dt (float_round dt (as_dtype dt (snd target_range) / max_abs))
                           centered)
               else Inr centered))"

text \<open>\<^verbatim>\<open>OutputConfig.position_range\<close>, which \<^verbatim>\<open>compute_layer_positions\<close> passes.\<close>

definition position_range :: "real \<times> real" where
  "position_range = (- 50, 50)"

text \<open>The doubles that the literals \<^verbatim>\<open>0.1\<close> and \<^verbatim>\<open>0.3\<close> denote.\<close>

definition double_0_1 :: real where
  "double_0_1 = 3602879701896397 / 36028797018963968"

definition double_0_3 :: real where
  "double_0_3 = 5404319552844595 / 18014398509481984"

subsection \<open>\<open>compute_edges\<close>\<close>

record edge =
  source :: nat
  target :: nat
  weight :: real

record edge_params =
  top_k :: int
  min_similarity :: real
  deduplicate :: bool

definition dot :: "real list \<Rightarrow> real list \<Rightarrow> real" where
  "dot u v = sum_list (map (\<lambda>(a, b). a * b) (zip u v))"

text \<open>
  Modelled from the spec: scikit-learn's \<^verbatim>\<open>NearestNeighbors\<close> with the cosine metric is
  not part of the repository.  \<open>kneighbors\<close> is its answer for the fitted vectors
  queried against themselves, as the specification of the graph builder words it: the
  \<open>n_neighbors\<close> nearest vectors of each vector by cosine distance, nearest first, equal
  distances in ascending index; cosine distance is one minus the dot product of the
  vectors scaled to unit length (a zero vector is left as it is).  It raises
  \<^verbatim>\<open>ValueError\<close> unless \<open>1 \<le> n_neighbors \<le> N\<close>.  The result is the array of distances
  and the array of indices, both of shape \<open>(N, n_neighbors)\<close>.
\<close>

definition unit_norm :: "real list \<Rightarrow> real" where
  "unit_norm u = (if sqrt (dot u u) = 0 then 1 else sqrt (dot u u))"

definition cosine_distance :: "real list \<Rightarrow> real list \<Rightarrow> real" where
  "cosine_distance u v = 1 - dot u v / (unit_norm u * unit_norm v)"

definition neighbor_order :: "real list list \<Rightarrow> real list \<Rightarrow> nat \<Rightarrow> nat list" where
  "neighbor_order X x n = take n (sort_key (\<lambda>j. cosine_distance x (X ! j)) [0..<length X])"

definition kneighbors ::
  "real list list \<Rightarrow> int \<Rightarrow> error + real list list \<times> nat list list" where
  "kneighbors X n_neighbors =
     (if n_neighbors < 1 \<or> int (length X) < n_neighbors then Inl ValueError
      else Inr (map (\<lambda>x. map (\<lambda>j. cosine_distance x (X ! j))
                              (neighbor_order X x (nat n_neighbors))) X,
                map (\<lambda>x. neighbor_order X x (nat n_neighbors)) X))"

text \<open>
  The body of the inner loop for the neighbour \<open>j\<close> of \<open>i\<close> with similarity \<open>sim\<close>: the
  threshold, then the set \<^verbatim>\<open>seen_pairs\<close> when \<^verbatim>\<open>deduplicate\<close> is set, then the append.
  \<open>dt\<close> is the dtype of the array \<^verbatim>\<open>similarities\<close>, which is the dtype of the decoder
  vectors.  The test \<^verbatim>\<open>similarity < params.min_similarity\<close> compares a NumPy scalar of
  that dtype with a Python float: the threshold is converted to \<open>dt\<close> and the comparison
  is made there.  The weight stored is \<^verbatim>\<open>float(similarity)\<close>, the same number.
\<close>

definition edge_step ::
  "edge_params \<Rightarrow> dtype \<Rightarrow> nat \<Rightarrow> nat \<times> real \<Rightarrow> edge list \<times> (nat \<times> nat) set
     \<Rightarrow> edge list \<times> (nat \<times> nat) set" where
  "edge_step p dt i neighbor st =
     (case (neighbor, st) of ((j, sim), (edges, seen_pairs)) \<Rightarrow>
        if sim < as_dtype dt (min_similarity p) then (edges, seen_pairs)
        else if deduplicate p then
          (let pair = (min i j, max i j) in
           if pair \<in> seen_pairs then (edges, seen_pairs)
           else (edges @ [\<lparr>source = i, target = j, weight = sim\<rparr>], insert pair seen_pairs))
        else (edges @ [\<lparr>source = i, target = j, weight = sim\<rparr>], seen_pairs))"

text \<open>
  The inner loop \<^verbatim>\<open>for j_idx in range(1, params.top_k + 1)\<close> over the neighbours of \<open>i\<close>
  in columns \<open>1 \<dots> top_k\<close>, and the outer loop \<^verbatim>\<open>for i in range(num_features)\<close> over the
  rows, from row \<open>i\<close> on.
\<close>

fun row_loop ::
  "edge_params \<Rightarrow> dtype \<Rightarrow> nat \<Rightarrow> (nat \<times> real) list \<Rightarrow> edge list \<times> (nat \<times> nat) set
     \<Rightarrow> edge list \<times> (nat \<times> nat) set" where
  "row_loop p dt i [] st = st"
| "row_loop p dt i (neighbor # rest) st = row_loop p dt i rest (edge_step p dt i neighbor st)"

fun edge_loop ::
  "edge_params \<Rightarrow> dtype \<Rightarrow> nat \<Rightarrow> (nat \<times> real) list list
     \<Rightarrow> edge list \<times> (nat \<times> nat) set \<Rightarrow> edge list \<times> (nat \<times> nat) set" where
  "edge_loop p dt i [] st = st"
| "edge_loop p dt i (row # rows) st = edge_loop p dt (Suc i) rows (row_loop p dt i row st)"

text \<open>
  The loops of \<^verbatim>\<open>compute_edges\<close> on the arrays \<^verbatim>\<open>indices\<close> and \<^verbatim>\<open>similarities\<close>.  Column
  0 of every row is skipped.  A read \<^verbatim>\<open>indices[i, j_idx]\<close> outside the arrays raises
  \<^verbatim>\<open>IndexError\<close>; no edge list is returned then.
\<close>

definition columns :: "int \<Rightarrow> nat list \<Rightarrow> real list \<Rightarrow> (nat \<times> real) list" where
  "columns k idx_row sim_row = drop 1 (take (nat k + 1) (zip idx_row sim_row))"

definition build_edges ::
  "edge_params \<Rightarrow> dtype \<Rightarrow> nat \<Rightarrow> nat list list \<Rightarrow> real list list \<Rightarrow> error + edge list" where
  "build_edges p dt num_features indices similarities =
     (if 1 \<le> top_k p \<and> 1 \<le> num_features \<and>
         (length indices < num_features \<or> length similarities < num_features \<or>
          list_ex (\<lambda>i. length (indices ! i) < nat (top_k p) + 1 \<or>
                        length (similarities ! i) < nat (top_k p) + 1) [0..<num_features])
      then Inl IndexError
      else Inr (fst (edge_loop p dt 0
                  (map (\<lambda>i. columns (top_k p) (indices ! i) (similarities ! i)) [0..<num_features])
                  ([], {}))))"

text \<open>
  \<^verbatim>\<open>compute_edges\<close> on decoder vectors of dtype \<open>dt\<close>: \<open>top_k + 1\<close> neighbours of every
  vector (``+1 because each point is its own neighbor''), similarities \<open>1 - distance\<close>,
  then the loops.
\<close>

definition compute_edges :: "edge_params \<Rightarrow> dtype \<Rightarrow> real list list \<Rightarrow> error + edge list" where
  "compute_edges p dt decoder_vectors =
     (case kneighbors decoder_vectors (top_k p + 1) of
        Inl e \<Rightarrow> Inl e
      | Inr (distances, indices) \<Rightarrow>
          build_edges p dt (length decoder_vectors) indices
            (map (map (\<lambda>d. 1 - d)) distances))"

text \<open>The unordered pair of an edge, as \<^verbatim>\<open>(min(i, j), max(i, j))\<close>.\<close>

definition pair_of :: "edge \<Rightarrow> nat \<times> nat" where
  "pair_of e = (min (source e) (target e), max (source e) (target e))"

text \<open>The unit vector of the plane at angle \<open>\<theta>\<close>.\<close>

definition unit_vector :: "real \<Rightarrow> real list" where
  "unit_vector \<theta> = [cos \<theta>, sin \<theta>]"

text \<open>
  The invariant of the loops of \<^verbatim>\<open>compute_edges\<close>: every edge appended so far passes the
  threshold as the comparison reads it and, under \<^verbatim>\<open>deduplicate\<close>, the edges have
  distinct unordered pairs, all of them in \<^verbatim>\<open>seen_pairs\<close>.
\<close>

definition edges_ok :: "edge_params \<Rightarrow> dtype \<Rightarrow> edge list \<times> (nat \<times> nat) set \<Rightarrow> bool" where
  "edges_ok p dt st \<longleftrightarrow>
     (\<forall>e\<in>set (fst st). as_dtype dt (min_similarity p) \<le> weight e) \<and>
     (deduplicate p \<longrightarrow> distinct (map pair_of (fst st)) \<and> pair_of ` set (fst st) \<subseteq> snd st)"

section \<open>Rounding of concrete numbers\<close>

lemma pow2_powr: "pow2 k = 2 powr (of_int k)"
  by (simp add: pow2_def powr_real_of_int inverse_eq_divide)

lemma floor_log2:
  assumes "pow2 e \<le> \<bar>x\<bar>" and "\<bar>x\<bar> < pow2 (e + 1)"
  shows "\<lfloor>log 2 \<bar>x\<bar>\<rfloor> = e"
proof -
  have "0 < pow2 e" by (simp add: pow2_powr)
  then have pos: "0 < \<bar>x\<bar>" using assms(1) by linarith
  have "of_int e \<le> log 2 \<bar>x\<bar>" using assms(1) pos by (simp add: pow2_powr le_log_iff)
  moreover have "log 2 \<bar>x\<bar> < of_int e + 1" using assms(2) pos by (simp add: pow2_powr log_less_iff)
  ultimately show ?thesis by (simp add: floor_unique)
qed

text \<open>The rounding of a number whose binary exponent \<open>e\<close> is known.\<close>

lemma float_round_at:
  assumes "pow2 e \<le> \<bar>x\<bar>" and "\<bar>x\<bar> < pow2 (e + 1)" and "min_exponent dt \<le> e"
  shows "float_round dt x =
     of_int (round_half_even (x / pow2 (e - significand_bits dt + 1))) *
       pow2 (e - significand_bits dt + 1)"
proof -
  have "0 < pow2 e" by (simp add: pow2_powr)
  then have "x \<noteq> 0" using assms(1) by auto
  then show ?thesis using floor_log2[OF assms(1,2)] assms(3)
    by (simp add: float_round_def Let_def max_def)
qed

lemma float_round_zero: "float_round dt 0 = 0"
  by (simp add: float_round_def)

lemma float32_of_0_7: "float_round Float32 (7 / 10) = 11744051 / 16777216"
  by (subst float_round_at[where e = "- 1"]) (simp_all add: pow2_def round_half_even_def Let_def)

lemma as_dtype_half: "as_dtype dt (1 / 2) = 1 / 2"
proof (cases dt)
  case Float32
  have "float_round Float32 (1 / 2) = 1 / 2"
    by (subst float_round_at[where e = "- 1"]) (simp_all add: pow2_def round_half_even_def Let_def)
  then show ?thesis using Float32 by simp
next
  case Float64
  then show ?thesis by simp
qed

lemma as_dtype_quarter: "as_dtype dt (1 / 4) = 1 / 4"
proof (cases dt)
  case Float32
  have "float_round Float32 (1 / 4) = 1 / 4"
    by (subst float_round_at[where e = "- 2"]) (simp_all add: pow2_def round_half_even_def Let_def)
  then show ?thesis using Float32 by simp
next
  case Float64
  then show ?thesis by simp
qed

lemma as_dtype_zero: "as_dtype dt 0 = 0"
  by (cases dt) (simp_all add: float_round_zero)

section \<open>Properties of the rate limiter\<close>

lemma filter_narrow:
  assumes "\<And>x. P x \<Longrightarrow> Q x"
  shows "filter P (filter Q xs) = filter P xs"
  using assms by (induction xs) auto

lemma wait_step:
  assumes inv: "limiter_inv R clock ts h" and R: "1 \<le> R"
    and gap: "0 \<le> gap" and lag: "0 \<le> lag"
  shows "\<exists>stamp ts'. wait_for_rate_limit R (clock + gap) lag ts = (Inr stamp, ts') \<and>
           clock \<le> stamp \<and> limiter_inv R stamp ts' (h @ [stamp])"
proof -
  define now where "now = clock + gap"
  define kept where "kept = filter (\<lambda>t. now - t < 60) ts"
  have now: "clock \<le> now" using gap by (simp add: now_def)
  have hle: "\<forall>t\<in>set h. t \<le> clock" and srt: "sorted h"
    and eq: "filter (\<lambda>t. clock - t < 60) h = filter (\<lambda>t. clock - t < 60) ts"
    and len: "int (length (filter (\<lambda>t. clock - t < 60) ts)) \<le> R"
    using inv by (auto simp: limiter_inv_def)
  have kept_alt: "kept = filter (\<lambda>t. now - t < 60) (filter (\<lambda>t. clock - t < 60) ts)"
    unfolding kept_def using now by (intro filter_narrow[symmetric]) simp
  have klen: "int (length kept) \<le> R"
    using len length_filter_le[of "\<lambda>t. now - t < 60" "filter (\<lambda>t. clock - t < 60) ts"]
    unfolding kept_alt by linarith
  have key: "filter (\<lambda>t. stamp - t < 60) h = filter (\<lambda>t. stamp - t < 60) kept"
    if st: "now \<le> stamp" for stamp
  proof -
    have "filter (\<lambda>t. stamp - t < 60) h = filter (\<lambda>t. stamp - t < 60) (filter (\<lambda>t. clock - t < 60) h)"
      using st now by (intro filter_narrow[symmetric]) simp
    also have "\<dots> = filter (\<lambda>t. stamp - t < 60) (filter (\<lambda>t. clock - t < 60) ts)"
      by (simp only: eq)
    also have "\<dots> = filter (\<lambda>t. stamp - t < 60) ts"
      using st now by (intro filter_narrow) simp
    also have "\<dots> = filter (\<lambda>t. stamp - t < 60) kept"
      unfolding kept_def using st by (intro filter_narrow[symmetric]) simp
    finally show ?thesis .
  qed
  have base: "(\<forall>t\<in>set (h @ [stamp]). t \<le> stamp) \<and> sorted (h @ [stamp])"
    if st: "now \<le> stamp" for stamp
    using hle srt now st by (auto simp: sorted_append)
  show ?thesis
  proof (cases "R \<le> int (length kept)")
    case False
    define stamp where "stamp = now + lag"
    have st: "now \<le> stamp" using lag by (simp add: stamp_def)
    have w: "wait_for_rate_limit R (clock + gap) lag ts = (Inr stamp, kept @ [stamp])"
      using False by (simp add: wait_for_rate_limit_def Let_def kept_def now_def stamp_def)
    have "length (filter (\<lambda>t. stamp - t < 60) kept) \<le> length kept"
      by (rule length_filter_le)
    moreover have "length (filter (\<lambda>t. stamp - t < 60) (kept @ [stamp])) =
        Suc (length (filter (\<lambda>t. stamp - t < 60) kept))" by simp
    ultimately have "int (length (filter (\<lambda>t. stamp - t < 60) (kept @ [stamp]))) \<le> R"
      using False by linarith
    then have "limiter_inv R stamp (kept @ [stamp]) (h @ [stamp])"
      unfolding limiter_inv_def using base[OF st] key[OF st] by simp
    then show ?thesis using w st now by auto
  next
    case True
    then have "kept \<noteq> []" using R by auto
    then obtain t0 rest where k: "kept = t0 # rest" by (cases kept) auto
    have "t0 \<in> set kept" by (simp add: k)
    then have q: "now - t0 < 60" unfolding kept_def by simp
    define stamp where "stamp = now + (60 - (now - t0) + 1 / 10) + lag"
    have st: "now \<le> stamp" using lag q by (simp add: stamp_def)
    have w: "wait_for_rate_limit R (clock + gap) lag ts = (Inr stamp, kept @ [stamp])"
      using True q k unfolding wait_for_rate_limit_def Let_def kept_def[symmetric] now_def[symmetric]
      by (simp add: stamp_def)
    have old: "\<not> stamp - t0 < 60" using lag by (simp add: stamp_def)
    have "int (length rest) < R" using klen k by simp
    moreover have "length (filter (\<lambda>t. stamp - t < 60) rest) \<le> length rest"
      by (rule length_filter_le)
    moreover have "length (filter (\<lambda>t. stamp - t < 60) (kept @ [stamp])) =
        Suc (length (filter (\<lambda>t. stamp - t < 60) rest))" using old by (simp add: k)
    ultimately have "int (length (filter (\<lambda>t. stamp - t < 60) (kept @ [stamp]))) \<le> R"
      by linarith
    then have "limiter_inv R stamp (kept @ [stamp]) (h @ [stamp])"
      unfolding limiter_inv_def using base[OF st] key[OF st] by simp
    then show ?thesis using w st now by auto
  qed
qed

lemma inv_window: "limiter_inv R stamp ts (h @ [stamp]) \<Longrightarrow> int (window_count stamp (h @ [stamp])) \<le> R"
  by (simp add: limiter_inv_def window_count_def)

lemma acquire_calls_inv:
  assumes R: "1 \<le> R"
  shows "limiter_inv R clock ts h \<Longrightarrow> \<forall>(gap, lag)\<in>set calls. 0 \<le> gap \<and> 0 \<le> lag \<Longrightarrow>
    \<exists>stamps. fst (acquire_calls R clock ts calls) = map Inr stamps \<and> length stamps = length calls \<and>
       sorted (h @ stamps) \<and>
       (\<forall>n<length stamps. int (window_count (stamps ! n) (h @ take (Suc n) stamps)) \<le> R)"
proof (induction calls arbitrary: clock ts h)
  case Nil
  then show ?case by (simp add: limiter_inv_def)
next
  case (Cons call calls)
  obtain gap lag where call: "call = (gap, lag)" by (cases call)
  have pos: "0 \<le> gap" "0 \<le> lag" using Cons.prems(2) call by auto
  obtain stamp ts' where w: "wait_for_rate_limit R (clock + gap) lag ts = (Inr stamp, ts')"
    and inv': "limiter_inv R stamp ts' (h @ [stamp])"
    using wait_step[OF Cons.prems(1) R pos] by blast
  have rest: "\<forall>(gap, lag)\<in>set calls. 0 \<le> gap \<and> 0 \<le> lag" using Cons.prems(2) by simp
  obtain stamps where s: "fst (acquire_calls R stamp ts' calls) = map Inr stamps"
    and l: "length stamps = length calls"
    and srt: "sorted ((h @ [stamp]) @ stamps)"
    and win: "\<forall>n<length stamps. int (window_count (stamps ! n) ((h @ [stamp]) @ take (Suc n) stamps)) \<le> R"
    using Cons.IH[OF inv' rest] by blast
  have run: "fst (acquire_calls R clock ts (call # calls)) = map Inr (stamp # stamps)"
    using w s by (cases "acquire_calls R stamp ts' calls") (simp add: call)
  have "int (window_count ((stamp # stamps) ! n) (h @ take (Suc n) (stamp # stamps))) \<le> R"
    if "n < length (stamp # stamps)" for n
  proof (cases n)
    case 0
    then show ?thesis using inv_window[OF inv'] by simp
  next
    case (Suc m)
    then show ?thesis using win that by simp
  qed
  then show ?case using run l srt by (intro exI[of _ "stamp # stamps"]) simp
qed

lemma admitted_map_Inr: "admitted (map Inr stamps) = stamps"
  by (induction stamps) auto

lemma acquire_calls_no_limit:
  "R \<le> 0 \<Longrightarrow> acquire_calls R clock [] calls = (map (\<lambda>_. Inl IndexError) calls, [])"
  by (induction calls arbitrary: clock) (auto simp: wait_for_rate_limit_def Let_def)

lemma admitted_all_Inl: "admitted (map (\<lambda>_. Inl e) calls) = []"
  by (induction calls) auto

lemma window_spacing:
  assumes srt: "sorted stamps" and j: "j < length stamps" and ij: "i + R \<le> j"
    and win: "window_count (stamps ! j) (take (Suc j) stamps) \<le> R"
  shows "stamps ! i + 60 \<le> stamps ! j"
proof (rule ccontr)
  assume "\<not> stamps ! i + 60 \<le> stamps ! j"
  then have near: "stamps ! j - stamps ! i < 60" by simp
  define seg where "seg = drop i (take (Suc j) stamps)"
  have split: "take (Suc j) stamps = take i stamps @ seg"
    unfolding seg_def using append_take_drop_id[of i "take (Suc j) stamps"] ij by (simp add: min_def)
  have "\<forall>s\<in>set seg. stamps ! j - s < 60"
  proof
    fix s assume "s \<in> set seg"
    then obtain k where k: "k < length seg" "s = seg ! k" by (auto simp: in_set_conv_nth)
    then have "s = stamps ! (i + k)" and "i + k < length stamps" using j by (auto simp: seg_def)
    then have "stamps ! i \<le> s" using srt by (simp add: sorted_nth_mono)
    then show "stamps ! j - s < 60" using near by simp
  qed
  then have "filter (\<lambda>s. stamps ! j - s < 60) seg = seg" by (simp add: filter_id_conv)
  then have "window_count (stamps ! j) (take (Suc j) stamps) \<ge> length seg"
    unfolding window_count_def split by simp
  moreover have "length seg = Suc j - i" using j by (simp add: seg_def)
  ultimately show False using win ij by simp
qed

text \<open>
  Claim C5.  Calls of \<^verbatim>\<open>_wait_for_rate_limit\<close> on a fresh client with limit \<open>R\<close>, run
  one after the other under the lock, on a clock that never goes back (every \<open>gap\<close> and
  \<open>lag\<close> is non-negative) and with timestamps taken as exact reals.  At the instant a call
  is admitted, at most \<open>R\<close> of the timestamps recorded so far, its own included, lie in
  the 60 seconds that end at its timestamp.  With \<open>R \<ge> 1\<close> every call is admitted, and
  an admission is at least 60 seconds after the one \<open>R\<close> places before it: with \<open>R = 5\<close>
  and six calls the sixth timestamp is at least 60 seconds after the first.
\<close>

theorem rate_limiter_window:
  assumes calls: "\<forall>(gap, lag)\<in>set calls. 0 \<le> gap \<and> 0 \<le> lag"
  shows "let stamps = admitted (fst (acquire_calls R clock [] calls)) in
           (\<forall>n<length stamps. int (window_count (stamps ! n) (take (Suc n) stamps)) \<le> R) \<and>
           (1 \<le> R \<longrightarrow> length stamps = length calls) \<and>
           (\<forall>i j. j < length stamps \<and> int i + R \<le> int j \<longrightarrow> stamps ! i + 60 \<le> stamps ! j) \<and>
           (R = 5 \<and> length calls = 6 \<longrightarrow> stamps ! 0 + 60 \<le> stamps ! 5)"
proof (cases "1 \<le> R")
  case False
  then have "admitted (fst (acquire_calls R clock [] calls)) = []"
    by (simp add: acquire_calls_no_limit admitted_all_Inl)
  then show ?thesis using False by simp
next
  case True
  have inv: "limiter_inv R clock [] []" using True by (simp add: limiter_inv_def)
  obtain stamps where run: "fst (acquire_calls R clock [] calls) = map Inr stamps"
    and len: "length stamps = length calls"
    and srt: "sorted stamps"
    and win: "\<forall>n<length stamps. int (window_count (stamps ! n) (take (Suc n) stamps)) \<le> R"
    using acquire_calls_inv[OF True inv calls] by auto
  have adm: "admitted (fst (acquire_calls R clock [] calls)) = stamps"
    by (simp add: run admitted_map_Inr)
  have spacing: "stamps ! i + 60 \<le> stamps ! j" if "j < length stamps" "int i + R \<le> int j" for i j
  proof -
    have "window_count (stamps ! j) (take (Suc j) stamps) \<le> nat R" using win[rule_format, OF that(1)] by linarith
    moreover have "i + nat R \<le> j" using that(2) True by simp
    ultimately show ?thesis using window_spacing[OF srt that(1)] by blast
  qed
  have six: "stamps ! 0 + 60 \<le> stamps ! 5" if "R = 5" "length calls = 6"
    using spacing[of 5 0] that len by simp
  show ?thesis unfolding adm Let_def using win len spacing six by blast
qed

theorem rate_limiter_window_witness:
  "admitted (fst (acquire_calls 5 0 [] [(0, 0), (0, 0), (0, 0), (0, 0), (0, 0), (0, 0)])) ! 0 + 60
     \<le> admitted (fst (acquire_calls 5 0 [] [(0, 0), (0, 0), (0, 0), (0, 0), (0, 0), (0, 0)])) ! 5"
  using rate_limiter_window[of "[(0, 0), (0, 0), (0, 0), (0, 0), (0, 0), (0, 0)]" 5 0]
  unfolding Let_def by simp











section \<open>Properties of \<open>fetch_feature\<close>\<close>

lemma fetch_attempts_generic:
  assumes srv: "\<And>a. server a = StatusOther \<or> server a = Raised"
    and n: "retry_attempts c = int n"
  shows "i < n \<Longrightarrow> fetch_attempts c server [i..<n] =
     (None, concat (map (\<lambda>a. [Request a, Sleep (retry_delay c * 2 ^ a)]) [i..<n - 1]) @ [Request (n - 1)])"
proof (induction "n - i" arbitrary: i)
  case 0
  then show ?case by simp
next
  case (Suc k)
  show ?case
  proof (cases "Suc i = n")
    case True
    then have "[i..<n] = [i]" using upt_rec[of i n] by auto
    moreover have "int i = retry_attempts c - 1" using True n by auto
    ultimately show ?thesis using True srv[of i] by (auto simp: Let_def split: prod.splits)
  next
    case False
    then have lt: "Suc i < n" using Suc.prems by simp
    have k: "k = n - Suc i" using Suc.hyps by simp
    have IH: "fetch_attempts c server [Suc i..<n] =
     (None, concat (map (\<lambda>a. [Request a, Sleep (retry_delay c * 2 ^ a)]) [Suc i..<n - 1]) @ [Request (n - 1)])"
      using Suc.hyps(1)[OF k lt] .
    have ne: "int i \<noteq> retry_attempts c - 1" using False n by auto
    have u: "[i..<n] = i # [Suc i..<n]" using Suc.prems by (simp add: upt_rec)
    have u2: "[i..<n - 1] = i # [Suc i..<n - 1]" using lt by (simp add: upt_rec)
    show ?thesis unfolding u u2 using srv[of i] ne IH by (auto simp: Let_def)
  qed
qed

lemma fetch_attempts_429:
  assumes srv: "\<And>a. \<exists>h. server a = Status429 h \<and> retry_after_seconds h = Inr (secs a)"
  shows "fetch_attempts c server as =
    (None, concat (map (\<lambda>a. [Request a, Sleep (of_int (secs a))]) as))"
proof (induction as)
  case Nil show ?case by simp
next
  case (Cons a as)
  obtain h where "server a = Status429 h" "retry_after_seconds h = Inr (secs a)" using srv by blast
  then show ?case using Cons by (simp add: Let_def)
qed

lemma wait_admits:
  "1 \<le> R \<Longrightarrow> \<exists>stamp kept. wait_for_rate_limit R now lag ts = (Inr stamp, kept)"
  by (auto simp: wait_for_rate_limit_def Let_def split: list.splits)

lemma fetch_feature_admitted:
  assumes "1 \<le> rate_limit c"
  shows "fst (fetch_feature c now lag ts server) =
     Inr (fetch_attempts c server [0..<nat (retry_attempts c)])"
proof -
  obtain stamp kept where "wait_for_rate_limit (rate_limit c) now lag ts = (Inr stamp, kept)"
    using wait_admits[OF assms] by blast
  then show ?thesis by (simp add: fetch_feature_def)
qed

lemma requests_backoff:
  "requests (concat (map (\<lambda>a. [Request a, Sleep (d a)]) as)) = as"
  by (induction as) auto

lemma requests_append: "requests (xs @ ys) = requests xs @ requests ys"
  by (induction xs rule: requests.induct) auto

text \<open>
  Claim C7.  A client with \<^verbatim>\<open>requests_per_minute >= 1\<close> and \<^verbatim>\<open>retry_attempts >= 1\<close>.
  A resource that always answers 404 is requested once and \<^verbatim>\<open>fetch_feature\<close> returns
  \<^verbatim>\<open>None\<close> with no sleep.  A resource whose every request ends in a status other than
  200, 404 and 429, or in an exception, is requested exactly \<^verbatim>\<open>retry_attempts\<close> times, with
  a sleep of \<^verbatim>\<open>retry_delay * 2 ** attempt\<close> after each request but the last, and
  \<^verbatim>\<open>fetch_feature\<close> returns \<^verbatim>\<open>None\<close>: it does not raise.  (\<^verbatim>\<open>None\<close> is the one value the code
  has for both outcomes.)
\<close>

theorem fetch_feature_terminal_outcomes:
  assumes limit: "1 \<le> rate_limit c" and attempts: "1 \<le> retry_attempts c"
  shows "fst (fetch_feature c now lag request_times (always (Status404 :: 'p response))) =
           Inr (None, [Request 0]) \<and>
         ((\<forall>a. (server :: nat \<Rightarrow> 'q response) a = StatusOther \<or> server a = Raised) \<longrightarrow>
            (\<exists>acts. fst (fetch_feature c now lag request_times server) = Inr (None, acts) \<and>
               acts = concat (map (\<lambda>a. [Request a, Sleep (retry_delay c * 2 ^ a)])
                         [0..<nat (retry_attempts c) - 1]) @ [Request (nat (retry_attempts c) - 1)] \<and>
               int (length (requests acts)) = retry_attempts c))"
proof -
  define n where "n = nat (retry_attempts c)"
  have n: "retry_attempts c = int n" "0 < n" using attempts by (simp_all add: n_def)
  have u: "[0..<n] = 0 # [Suc 0..<n]" using n(2) by (simp add: upt_rec)
  have nf: "fetch_attempts c (always (Status404 :: 'p response)) [0..<n] = (None, [Request 0])"
    unfolding u by (simp add: always_def Let_def split: prod.splits)
  have first: "fst (fetch_feature c now lag request_times (always (Status404 :: 'p response))) =
      Inr (None, [Request 0])"
    using nf unfolding n_def by (simp only: fetch_feature_admitted[OF limit])
  have second: "\<exists>acts. fst (fetch_feature c now lag request_times server) = Inr (None, acts) \<and>
               acts = concat (map (\<lambda>a. [Request a, Sleep (retry_delay c * 2 ^ a)])
                         [0..<n - 1]) @ [Request (n - 1)] \<and>
               int (length (requests acts)) = retry_attempts c"
    if srv: "\<forall>a. server a = StatusOther \<or> server a = Raised"
  proof -
    have "fetch_attempts c server [0..<n] =
      (None, concat (map (\<lambda>a. [Request a, Sleep (retry_delay c * 2 ^ a)]) [0..<n - 1]) @ [Request (n - 1)])"
      using fetch_attempts_generic[OF _ n(1) n(2)] srv by blast
    moreover have "length (requests (concat (map (\<lambda>a. [Request a, Sleep (retry_delay c * 2 ^ a)]) [0..<n - 1]) @ [Request (n - 1)])) = n"
      using n(2) by (simp add: requests_append requests_backoff)
    moreover have "nat (retry_attempts c) = n" by (simp add: n_def)
    moreover have "int n = retry_attempts c" using attempts by (simp add: n_def)
    ultimately show ?thesis
      by (simp only: fetch_feature_admitted[OF limit]) simp
  qed
  have nn: "nat (retry_attempts c) = n" by (simp add: n_def)
  show ?thesis using first second unfolding nn by blast
qed

theorem fetch_feature_terminal_outcomes_witness:
  "fst (fetch_feature \<lparr>rate_limit = 100, retry_attempts = 3, retry_delay = 1\<rparr> 0 0 []
          (always (Status404 :: unit response))) = Inr (None, [Request 0]) \<and>
   fst (fetch_feature \<lparr>rate_limit = 100, retry_attempts = 3, retry_delay = 1\<rparr> 0 0 []
          (always (StatusOther :: unit response))) =
     Inr (None, [Request 0, Sleep 1, Request 1, Sleep 2, Request 2])"
  using fetch_feature_terminal_outcomes[where c = "\<lparr>rate_limit = 100, retry_attempts = 3, retry_delay = 1\<rparr>"
      and server = "always (StatusOther :: unit response)" and now = 0 and lag = 0
      and request_times = "[]" and 'p = unit]
  by (simp add: always_def upt_rec)

text \<open>
  Claim C1, as stated, fails: status 429 takes an iteration of the \<^verbatim>\<open>for\<close> loop like
  every other outcome.  With \<^verbatim>\<open>retry_attempts = 3\<close> a resource that always answers 429
  (no \<^verbatim>\<open>Retry-After\<close>) is requested three times, each followed by a sleep of 60 seconds,
  and \<^verbatim>\<open>fetch_feature\<close> returns \<^verbatim>\<open>None\<close>, the value it returns for a failed fetch.
\<close>

theorem fetch_feature_rate_limited_counterexample:
  "fetch_feature \<lparr>rate_limit = 100, retry_attempts = 3, retry_delay = 1\<rparr> 0 0 []
      (always (Status429 NoHeader :: unit response)) =
   (Inr (None, [Request 0, Sleep 60, Request 1, Sleep 60, Request 2, Sleep 60]), [0])"
  by (simp add: fetch_feature_def wait_for_rate_limit_def always_def Let_def upt_rec)

text \<open>
  One attempt that is answered 429, whatever the resource answers later: the sleep, then
  the attempts that remain.
\<close>

lemma fetch_attempts_429_step:
  assumes a: "a < n" and srv: "server a = Status429 h" and secs: "retry_after_seconds h = Inr secs"
  shows "fetch_attempts c server [a..<n] =
     (fst (fetch_attempts c server [Suc a..<n]),
      Request a # Sleep (of_int secs) # snd (fetch_attempts c server [Suc a..<n]))"
proof -
  have u: "[a..<n] = a # [Suc a..<n]" using a by (simp add: upt_rec)
  show ?thesis unfolding u using srv secs by (simp add: Let_def split: prod.splits)
qed

lemma fetch_attempts_bad_header_step:
  assumes a: "a < n" and srv: "server a = Status429 NotAnInteger"
  shows "fetch_attempts c server [a..<n] =
     (if int a = retry_attempts c - 1 then (None, [Request a])
      else (fst (fetch_attempts c server [Suc a..<n]),
            Request a # Sleep (retry_delay c * 2 ^ a) # snd (fetch_attempts c server [Suc a..<n])))"
proof -
  have u: "[a..<n] = a # [Suc a..<n]" using a by (simp add: upt_rec)
  show ?thesis unfolding u using srv by (simp add: Let_def split: prod.splits)
qed

text \<open>
  Claim C1, amended.  For every fetch (on a client with \<^verbatim>\<open>requests_per_minute >= 1\<close>)
  and every attempt answered 429 with a \<^verbatim>\<open>Retry-After\<close> that is absent or an integer, the
  fetcher sleeps for that many seconds (60 when the header is absent) and goes on with
  the next attempt of the loop, the 429 having used one up: the fetch then resolves as
  the remaining attempts do, and to \<^verbatim>\<open>None\<close> when none remains.  A \<^verbatim>\<open>Retry-After\<close> that
  \<^verbatim>\<open>int\<close> cannot parse is handled as any other error: \<^verbatim>\<open>None\<close> in the last attempt, the
  sleep \<^verbatim>\<open>retry_delay * 2 ** attempt\<close> otherwise.  So the rate-limited path is capped: a
  resource that always answers 429 with an absent or integer \<^verbatim>\<open>Retry-After\<close> is requested
  exactly \<^verbatim>\<open>retry_attempts\<close> times, each request followed by that sleep, and the fetch
  returns \<^verbatim>\<open>None\<close>.
\<close>

theorem fetch_feature_rate_limited:
  assumes limit: "1 \<le> rate_limit c"
  shows
    "fst (fetch_feature c now lag request_times server) =
       Inr (fetch_attempts c server [0..<nat (retry_attempts c)]) \<and>
     (\<forall>a h secs. a < nat (retry_attempts c) \<and> server a = Status429 h \<and>
          retry_after_seconds h = Inr secs \<longrightarrow>
        fetch_attempts c server [a..<nat (retry_attempts c)] =
          (fst (fetch_attempts c server [Suc a..<nat (retry_attempts c)]),
           Request a # Sleep (of_int secs) #
             snd (fetch_attempts c server [Suc a..<nat (retry_attempts c)]))) \<and>
     (\<forall>a. a < nat (retry_attempts c) \<and> server a = Status429 NotAnInteger \<longrightarrow>
        fetch_attempts c server [a..<nat (retry_attempts c)] =
          (if int a = retry_attempts c - 1 then (None, [Request a])
           else (fst (fetch_attempts c server [Suc a..<nat (retry_attempts c)]),
                 Request a # Sleep (retry_delay c * 2 ^ a) #
                   snd (fetch_attempts c server [Suc a..<nat (retry_attempts c)])))) \<and>
     fetch_attempts c server [nat (retry_attempts c)..<nat (retry_attempts c)] = (None, []) \<and>
     retry_after_seconds NoHeader = Inr 60 \<and> retry_after_seconds (Seconds secs) = Inr secs \<and>
     fst (fetch_feature c now lag request_times (always (Status429 NoHeader :: 'p response))) =
       Inr (None, concat (map (\<lambda>a. [Request a, Sleep 60]) [0..<nat (retry_attempts c)])) \<and>
     fst (fetch_feature c now lag request_times (always (Status429 (Seconds secs) :: 'p response))) =
       Inr (None, concat (map (\<lambda>a. [Request a, Sleep (of_int secs)]) [0..<nat (retry_attempts c)])) \<and>
     requests (concat (map (\<lambda>a. [Request a, Sleep (of_int secs)]) [0..<nat (retry_attempts c)])) =
       [0..<nat (retry_attempts c)]"
proof -
  have a: "fetch_attempts c (always (Status429 NoHeader :: 'p response)) as =
      (None, concat (map (\<lambda>a. [Request a, Sleep 60]) as))" for as
    using fetch_attempts_429[of "always (Status429 NoHeader)" "\<lambda>_. 60" c as]
    by (simp add: always_def)
  have b: "fetch_attempts c (always (Status429 (Seconds secs) :: 'p response)) as =
      (None, concat (map (\<lambda>a. [Request a, Sleep (of_int secs)]) as))" for as
    using fetch_attempts_429[of "always (Status429 (Seconds secs))" "\<lambda>_. secs" c as]
    by (simp add: always_def)
  show ?thesis
    using fetch_attempts_429_step[of _ "nat (retry_attempts c)" server _ _ c]
      fetch_attempts_bad_header_step[of _ "nat (retry_attempts c)" server c]
    by (simp add: fetch_feature_admitted[OF limit] a b requests_backoff)
qed

theorem fetch_feature_rate_limited_witness:
  "fst (fetch_feature \<lparr>rate_limit = 100, retry_attempts = 2, retry_delay = 1\<rparr> 0 0 []
          rate_limited_then_found) =
     Inr (Some 5, [Request 0, Sleep 7, Request 1]) \<and>
   fst (fetch_feature \<lparr>rate_limit = 100, retry_attempts = 2, retry_delay = 1\<rparr> 0 0 []
          (always (Status429 (Seconds 7) :: unit response))) =
     Inr (None, [Request 0, Sleep 7, Request 1, Sleep 7])"
proof -
  let ?c = "\<lparr>rate_limit = 100, retry_attempts = 2, retry_delay = 1\<rparr>"
  have lim: "1 \<le> rate_limit ?c" by simp
  note t = fetch_feature_rate_limited[OF lim, where now = 0 and lag = 0 and request_times = "[]"
      and secs = 7 and server = rate_limited_then_found and 'p = unit]
  have run: "fst (fetch_feature ?c 0 0 [] rate_limited_then_found) =
      Inr (fetch_attempts ?c rate_limited_then_found [0..<nat (retry_attempts ?c)])"
    using t by (rule conjunct1)
  have "0 < nat (retry_attempts ?c) \<and> rate_limited_then_found 0 = Status429 (Seconds 7) \<and>
      retry_after_seconds (Seconds 7) = Inr 7"
    by (simp add: rate_limited_then_found_def)
  then have step: "fetch_attempts ?c rate_limited_then_found [0..<nat (retry_attempts ?c)] =
     (fst (fetch_attempts ?c rate_limited_then_found [Suc 0..<nat (retry_attempts ?c)]),
      Request 0 # Sleep (of_int 7) #
        snd (fetch_attempts ?c rate_limited_then_found [Suc 0..<nat (retry_attempts ?c)]))"
    using t[THEN conjunct2, THEN conjunct1] by blast
  have rest: "fetch_attempts ?c rate_limited_then_found [Suc 0..<nat (retry_attempts ?c)] =
      (Some 5, [Request 1])"
    by (simp add: rate_limited_then_found_def upt_rec)
  have first: "fst (fetch_feature ?c 0 0 [] rate_limited_then_found) =
      Inr (Some 5, [Request 0, Sleep 7, Request 1])"
    unfolding run step rest by simp
  have "fst (fetch_feature ?c 0 0 [] (always (Status429 (Seconds 7) :: unit response))) =
       Inr (None, concat (map (\<lambda>a. [Request a, Sleep (of_int 7)]) [0..<nat (retry_attempts ?c)]))"
    using t by blast
  then have second: "fst (fetch_feature ?c 0 0 [] (always (Status429 (Seconds 7) :: unit response))) =
     Inr (None, [Request 0, Sleep 7, Request 1, Sleep 7])"
    by (simp add: upt_rec)
  show ?thesis using first second by simp
qed

section \<open>Properties of the pipeline\<close>

lemma process_layers_append:
  "process_layers ext opts model_id (before @ after) w =
     (case process_layers ext opts model_id before w of
        (s1, f1, w1) \<Rightarrow>
          (case process_layers ext opts model_id after w1 of
             (s2, f2, w2) \<Rightarrow> (s1 @ s2, f1 @ f2, w2)))"
proof (induction before arbitrary: w)
  case Nil
  show ?case by (simp split: prod.splits)
next
  case (Cons layer before)
  show ?case by (simp add: Cons.IH Let_def split: prod.splits)
qed

lemma process_layers_partition:
  "\<exists>oks w1. length oks = length layers \<and>
     process_layers ext opts model_id layers w =
       (map fst (filter snd (zip layers oks)),
        map fst (filter (\<lambda>p. \<not> snd p) (zip layers oks)), w1)"
proof (induction layers arbitrary: w)
  case Nil
  show ?case by simp
next
  case (Cons layer layers)
  obtain ok w0 where r: "run_layer_pipeline ext opts model_id layer w = (ok, w0)"
    by (cases "run_layer_pipeline ext opts model_id layer w")
  obtain oks w1 where l: "length oks = length layers"
    and p: "process_layers ext opts model_id layers w0 =
       (map fst (filter snd (zip layers oks)),
        map fst (filter (\<lambda>p. \<not> snd p) (zip layers oks)), w1)"
    using Cons.IH[of w0] by blast
  show ?case
    by (rule exI[of _ "ok # oks"], rule exI[of _ w1]) (simp add: r p l)
qed

lemma process_layers_none_failed:
  assumes "process_layers ext opts model_id layers w = (s, [], w1)"
  shows "s = layers"
proof -
  obtain oks w1' where l: "length oks = length layers"
    and p: "process_layers ext opts model_id layers w =
       (map fst (filter snd (zip layers oks)),
        map fst (filter (\<lambda>p. \<not> snd p) (zip layers oks)), w1')"
    using process_layers_partition by blast
  have f: "filter (\<lambda>p. \<not> snd p) (zip layers oks) = []" using assms p by simp
  then have "\<forall>p\<in>set (zip layers oks). snd p" by (simp add: filter_empty_conv)
  then have "filter snd (zip layers oks) = zip layers oks" by (simp add: filter_id_conv)
  then have "s = map fst (zip layers oks)" using assms p by simp
  then show ?thesis using l by simp
qed

lemma export_manifest_result:
  assumes "MODELS model_id = Some cfg"
  shows "(\<exists>e. fst (export_manifest ext model_id ls w) = Inl e) \<longleftrightarrow>
           write_error ext (Manifest model_id) \<noteq> None"
  using assms by (auto simp: export_manifest_def save_def split: option.splits)

lemma run_layer_pipeline_steps:
  "run_layer_pipeline ext opts model_id layer w =
     (case step_vectors ext model_id layer (force opts) w of
        (Inl e, w1) \<Rightarrow> (False, w1)
      | (Inr u, w1) \<Rightarrow>
          (case step_positions ext model_id layer (force opts) w1 of
             (Inl e, w2) \<Rightarrow> (False, w2)
           | (Inr u, w2) \<Rightarrow>
               (case step_labels ext model_id layer (top_k_labels opts) (skip_labels opts)
                       (force opts) w2 of
                  (Inl e, w3) \<Rightarrow> (False, w3)
                | (Inr u, w3) \<Rightarrow>
                    (case step_export ext model_id layer (force opts) w3 of
                       (Inl e, w4) \<Rightarrow> (False, w4)
                     | (Inr u, w4) \<Rightarrow> (True, w4)))))"
  by (simp add: run_layer_pipeline_def and_then_def split: prod.splits sum.splits)

lemma main_exit_code:
  assumes model: "MODELS model_id = Some cfg" and nonempty: "layers \<noteq> []"
    and run: "process_layers ext opts model_id layers w = (s, f, w1)"
  shows "fst (main_exit ext opts model_id (Some layers) w) \<noteq> 0 \<longleftrightarrow>
           f \<noteq> [] \<or> write_error ext (Manifest model_id) \<noteq> None"
proof (cases "f = []")
  case True
  then have s: "s = layers" using run process_layers_none_failed by blast
  obtain r w2 where m: "export_manifest ext model_id layers w1 = (r, w2)"
    by (cases "export_manifest ext model_id layers w1")
  have "(\<exists>e. r = Inl e) \<longleftrightarrow> write_error ext (Manifest model_id) \<noteq> None"
    using export_manifest_result[OF model, of ext layers w1] m by simp
  then show ?thesis using model nonempty run True s m
    by (cases r) (auto simp: main_exit_def run_pipeline_def)
next
  case False
  then show ?thesis using model nonempty run
    by (auto simp: main_exit_def run_pipeline_def split: prod.splits sum.splits)
qed

lemma sample_run:
  "process_layers sample_externals sample_options ''gemma-2-2b'' [0, 99, 1] empty_world =
     ([0, 1], [99], snd (snd (process_layers sample_externals sample_options ''gemma-2-2b'' [0, 99, 1] empty_world)))"
  by (simp add: run_layer_pipeline_def and_then_def step_vectors_def step_positions_def
      step_labels_def step_export_def download_decoder_vectors_def compute_layer_positions_def
      export_layer_def save_def log_event_def MODELS_def sample_externals_def sample_options_def
      empty_world_def Let_def)

text \<open>
  Claim C8, as stated, fails in its last part: the exit status is non-zero also when
  no unit failed and the export of the manifest raises, since \<^verbatim>\<open>run_pipeline\<close> calls
  \<^verbatim>\<open>export_manifest\<close> outside any \<^verbatim>\<open>try\<close>.  Here the one layer succeeds, the manifest
  cannot be written, and the process ends with status 1.
\<close>

theorem exit_status_counterexample:
  "fst (snd (process_layers manifest_unwritable sample_options ''gemma-2-2b'' [0] empty_world)) = [] \<and>
   fst (main_exit manifest_unwritable sample_options ''gemma-2-2b'' (Some [0]) empty_world) = 1"
  by (simp add: main_exit_def run_pipeline_def export_manifest_def
      run_layer_pipeline_def and_then_def step_vectors_def step_positions_def
      step_labels_def step_export_def download_decoder_vectors_def compute_layer_positions_def
      export_layer_def save_def log_event_def MODELS_def sample_externals_def sample_options_def
      manifest_unwritable_def empty_world_def Let_def)

text \<open>
  The banner of \<^verbatim>\<open>run_pipeline\<close> prints \<^verbatim>\<open>min(layers)\<close>: an empty list of layers (the
  argument \<^verbatim>\<open>--layers 5-3\<close>, for example) ends the process with status 1 before any
  layer is run.
\<close>

lemma run_pipeline_empty_layers:
  "fst (main_exit sample_externals sample_options ''gemma-2-2b'' (Some []) empty_world) = 1"
  by (simp add: main_exit_def run_pipeline_def MODELS_def)

text \<open>
  Claim C8, amended.  A step of a unit that raises ends the unit: \<^verbatim>\<open>run_layer_pipeline\<close>
  returns \<^verbatim>\<open>False\<close> in the world the failing step left, so no later step of the unit
  runs and nothing is raised to the caller.  The units after a unit are processed
  whatever its result, from the world it left; every unit of the list ends in exactly
  one of the lists \<^verbatim>\<open>successful\<close> and \<^verbatim>\<open>failed\<close>, in the order of the list.  For a
  non-empty list of units of a known model the exit status is non-zero if and only if a
  unit failed or the export of the manifest raised.
\<close>

theorem pipeline_failure_isolation:
  assumes model: "MODELS model_id = Some cfg" and nonempty: "layers \<noteq> []"
  shows
    "run_layer_pipeline ext opts model_id layer w =
       (case step_vectors ext model_id layer (force opts) w of
          (Inl e, w1) \<Rightarrow> (False, w1)
        | (Inr u, w1) \<Rightarrow>
            (case step_positions ext model_id layer (force opts) w1 of
               (Inl e, w2) \<Rightarrow> (False, w2)
             | (Inr u, w2) \<Rightarrow>
                 (case step_labels ext model_id layer (top_k_labels opts) (skip_labels opts)
                         (force opts) w2 of
                    (Inl e, w3) \<Rightarrow> (False, w3)
                  | (Inr u, w3) \<Rightarrow>
                      (case step_export ext model_id layer (force opts) w3 of
                         (Inl e, w4) \<Rightarrow> (False, w4)
                       | (Inr u, w4) \<Rightarrow> (True, w4))))) \<and>
     process_layers ext opts model_id (before @ layer # after) w =
       (case process_layers ext opts model_id before w of
          (s1, f1, w1) \<Rightarrow>
            (case run_layer_pipeline ext opts model_id layer w1 of
               (ok, w2) \<Rightarrow>
                 (case process_layers ext opts model_id after w2 of
                    (s3, f3, w3) \<Rightarrow>
                      (s1 @ (if ok then [layer] else []) @ s3,
                       f1 @ (if ok then [] else [layer]) @ f3, w3)))) \<and>
     (\<exists>oks w1. length oks = length layers \<and>
        process_layers ext opts model_id layers w =
          (map fst (filter snd (zip layers oks)),
           map fst (filter (\<lambda>p. \<not> snd p) (zip layers oks)), w1)) \<and>
     (fst (main_exit ext opts model_id (Some layers) w) \<noteq> 0 \<longleftrightarrow>
        fst (snd (process_layers ext opts model_id layers w)) \<noteq> [] \<or>
        write_error ext (Manifest model_id) \<noteq> None)"
proof -
  have unit: "process_layers ext opts model_id (before @ layer # after) w =
       (case process_layers ext opts model_id before w of
          (s1, f1, w1) \<Rightarrow>
            (case run_layer_pipeline ext opts model_id layer w1 of
               (ok, w2) \<Rightarrow>
                 (case process_layers ext opts model_id after w2 of
                    (s3, f3, w3) \<Rightarrow>
                      (s1 @ (if ok then [layer] else []) @ s3,
                       f1 @ (if ok then [] else [layer]) @ f3, w3))))"
    by (simp add: process_layers_append Let_def split: prod.splits)
  obtain s f w1 where run: "process_layers ext opts model_id layers w = (s, f, w1)"
    by (cases "process_layers ext opts model_id layers w") auto
  have code: "fst (main_exit ext opts model_id (Some layers) w) \<noteq> 0 \<longleftrightarrow>
        fst (snd (process_layers ext opts model_id layers w)) \<noteq> [] \<or>
        write_error ext (Manifest model_id) \<noteq> None"
    using main_exit_code[OF model nonempty run] by (simp add: run)
  show ?thesis
    using run_layer_pipeline_steps[of ext opts model_id layer w] unit
      process_layers_partition[of layers ext opts model_id w] code
    by (intro conjI)
qed

theorem pipeline_failure_isolation_witness:
  "process_layers sample_externals sample_options ''gemma-2-2b'' [0, 99, 1] empty_world =
     ([0, 1], [99],
      snd (snd (process_layers sample_externals sample_options ''gemma-2-2b'' [0, 99, 1] empty_world))) \<and>
   fst (main_exit sample_externals sample_options ''gemma-2-2b'' (Some [0, 99, 1]) empty_world) \<noteq> 0"
proof -
  have m: "MODELS ''gemma-2-2b'' =
      Some \<lparr>num_layers = 26, features_per_layer = 16384, decoder_dim = 2304\<rparr>"
    by (simp add: MODELS_def)
  have ne: "[0, 99, 1] \<noteq> ([] :: int list)" by simp
  have code: "fst (main_exit sample_externals sample_options ''gemma-2-2b'' (Some [0, 99, 1]) empty_world) \<noteq> 0 \<longleftrightarrow>
      fst (snd (process_layers sample_externals sample_options ''gemma-2-2b'' [0, 99, 1] empty_world)) \<noteq> [] \<or>
      write_error sample_externals (Manifest ''gemma-2-2b'') \<noteq> None"
    using pipeline_failure_isolation[OF m ne, of sample_externals sample_options 0 empty_world "[]" "[]"]
    by blast
  have "fst (snd (process_layers sample_externals sample_options ''gemma-2-2b'' [0, 99, 1] empty_world)) = [99]"
    using sample_run by (metis fst_conv snd_conv)
  then show ?thesis using code sample_run by simp
qed

text \<open>
  \<^verbatim>\<open>run_layer_pipeline\<close> with \<^verbatim>\<open>force=True\<close> calls \<^verbatim>\<open>download_decoder_vectors\<close>, which
  has no \<^verbatim>\<open>force\<close> parameter and returns the cached file when there is one: the step
  changes nothing.
\<close>

lemma download_ignores_force:
  assumes "MODELS model_id = Some cfg" and "0 \<le> layer" and "layer < num_layers cfg"
    and "files w (Cache model_id layer DecoderVectors) = Some v"
  shows "step_vectors ext model_id layer True w = (Inr (), w)"
  using assms by (simp add: step_vectors_def download_decoder_vectors_def)

text \<open>
  Claim C2 at its failing input: \<^verbatim>\<open>force=True\<close> with \<^verbatim>\<open>decoder_vectors.npy\<close> in the
  cache.  With the cached vectors \<open>7\<close> and a source that would deliver \<open>1\<close>, the forced
  run keeps \<open>7\<close>: it starts no download and does not write the vectors, while it
  recomputes and rewrites the positions, the edges and the exported layer.
\<close>

theorem forced_run_keeps_cached_vectors:
  "hf_vectors sample_externals ''gemma-2-2b'' 12 = Inr 1 \<and>
   files (snd (run_layer_pipeline sample_externals forced_options ''gemma-2-2b'' 12
                 cached_vectors_world)) (Cache ''gemma-2-2b'' 12 DecoderVectors) = Some 7 \<and>
   events (snd (run_layer_pipeline sample_externals forced_options ''gemma-2-2b'' 12
                  cached_vectors_world)) =
     [Embed ''gemma-2-2b'' 12, Write (Cache ''gemma-2-2b'' 12 Positions),
      Write (Cache ''gemma-2-2b'' 12 Edges), Write (LayerOutput ''gemma-2-2b'' 12)]"
  by (simp add: run_layer_pipeline_def and_then_def step_vectors_def step_positions_def
      step_labels_def step_export_def download_decoder_vectors_def compute_layer_positions_def
      export_layer_def save_def log_event_def MODELS_def sample_externals_def forced_options_def
      cached_vectors_world_def Let_def)

section \<open>Properties of \<open>compute_edges\<close>\<close>

lemma edge_step_ok: "edges_ok p dt st \<Longrightarrow> edges_ok p dt (edge_step p dt i neighbor st)"
  by (cases neighbor; cases st)
     (auto simp: edges_ok_def edge_step_def Let_def pair_of_def)

lemma row_loop_ok: "edges_ok p dt st \<Longrightarrow> edges_ok p dt (row_loop p dt i row st)"
proof (induction row arbitrary: st)
  case Nil
  then show ?case by simp
next
  case (Cons neighbor rest)
  have "edges_ok p dt (edge_step p dt i neighbor st)" using Cons.prems by (rule edge_step_ok)
  then show ?case using Cons.IH by simp
qed

lemma edge_loop_ok: "edges_ok p dt st \<Longrightarrow> edges_ok p dt (edge_loop p dt i rows st)"
proof (induction rows arbitrary: st i)
  case Nil
  then show ?case by simp
next
  case (Cons row rows)
  have "edges_ok p dt (row_loop p dt i row st)" using Cons.prems by (rule row_loop_ok)
  then show ?case using Cons.IH by simp
qed

lemma build_edges_ok:
  assumes "build_edges p dt n indices similarities = Inr edges"
  shows "(\<forall>e\<in>set edges. as_dtype dt (min_similarity p) \<le> weight e) \<and>
         (deduplicate p \<longrightarrow> distinct (map pair_of edges))"
proof -
  have "edges_ok p dt ([], {})" by (simp add: edges_ok_def)
  then have "edges_ok p dt (edge_loop p dt 0
      (map (\<lambda>i. columns (top_k p) (indices ! i) (similarities ! i)) [0..<n]) ([], {}))"
    by (rule edge_loop_ok)
  moreover have "edges = fst (edge_loop p dt 0
      (map (\<lambda>i. columns (top_k p) (indices ! i) (similarities ! i)) [0..<n]) ([], {}))"
    using assms by (simp add: build_edges_def split: if_splits)
  ultimately show ?thesis by (simp add: edges_ok_def)
qed

lemma pair_of_reverse:
  "source e = target f \<Longrightarrow> target e = source f \<Longrightarrow> pair_of e = pair_of f"
  by (simp add: pair_of_def min.commute max.commute)

lemma distinct_pairs_no_reverse:
  assumes d: "distinct (map pair_of edges)" and a: "a < length edges" and b: "b < length edges"
    and ab: "a \<noteq> b"
  shows "\<not> (source (edges ! a) = target (edges ! b) \<and> target (edges ! a) = source (edges ! b))"
    and "\<not> (source (edges ! a) = source (edges ! b) \<and> target (edges ! a) = target (edges ! b))"
proof -
  have "map pair_of edges ! a \<noteq> map pair_of edges ! b"
    using nth_eq_iff_index_eq[OF d, of a b] a b ab by simp
  then have ne: "pair_of (edges ! a) \<noteq> pair_of (edges ! b)" using a b by simp
  show "\<not> (source (edges ! a) = target (edges ! b) \<and> target (edges ! a) = source (edges ! b))"
    using ne pair_of_reverse[of "edges ! a" "edges ! b"] by blast
  show "\<not> (source (edges ! a) = source (edges ! b) \<and> target (edges ! a) = target (edges ! b))"
    using ne by (auto simp: pair_of_def)
qed

text \<open>
  What the loops of \<^verbatim>\<open>compute_edges\<close> keep: every edge passes the threshold as converted
  to the dtype of the similarities (the threshold itself for \<^verbatim>\<open>float64\<close>), and with
  \<^verbatim>\<open>deduplicate\<close> set no two edges of the list have the same unordered pair of indices.
\<close>

lemma compute_edges_kept:
  assumes "compute_edges p dt decoder_vectors = Inr edges"
  shows "(\<forall>e\<in>set edges. as_dtype dt (min_similarity p) \<le> weight e) \<and>
         (deduplicate p \<longrightarrow>
            distinct (map pair_of edges) \<and>
            (\<forall>a<length edges. \<forall>b<length edges. a \<noteq> b \<longrightarrow>
               \<not> (source (edges ! a) = target (edges ! b) \<and> target (edges ! a) = source (edges ! b)) \<and>
               \<not> (source (edges ! a) = source (edges ! b) \<and> target (edges ! a) = target (edges ! b))))"
proof -
  obtain distances indices where
    "build_edges p dt (length decoder_vectors) indices (map (map (\<lambda>d. 1 - d)) distances) = Inr edges"
    using assms by (auto simp: compute_edges_def split: sum.splits prod.splits)
  then have ok: "(\<forall>e\<in>set edges. as_dtype dt (min_similarity p) \<le> weight e) \<and>
         (deduplicate p \<longrightarrow> distinct (map pair_of edges))"
    by (rule build_edges_ok)
  then show ?thesis using distinct_pairs_no_reverse[of edges] by blast
qed

text \<open>
  Claim C3 at its failing input: \<^verbatim>\<open>float32\<close> similarities and \<^verbatim>\<open>min_similarity = 0.7\<close>.
  The threshold is converted to \<^verbatim>\<open>float32\<close> for the comparison and becomes
  \<open>11744051 / 2\<^sup>2\<^sup>4 = 0.699999988\<dots>\<close>; a similarity equal to that \<^verbatim>\<open>float32\<close> is not below
  it, so the edge is kept, and its weight \<^verbatim>\<open>float(similarity)\<close> is below \<open>0.7\<close>.  Here two
  features are each other's neighbour with that similarity.
\<close>

theorem float32_edge_below_threshold:
  "float_round Float32 (7 / 10) = 11744051 / 16777216 \<and>
   build_edges \<lparr>top_k = 1, min_similarity = 7 / 10, deduplicate = True\<rparr> Float32 2
     [[0, 1], [1, 0]] [[1, 11744051 / 16777216], [1, 11744051 / 16777216]] =
     Inr [\<lparr>source = 0, target = 1, weight = 11744051 / 16777216\<rparr>] \<and>
   weight \<lparr>source = 0, target = 1, weight = 11744051 / 16777216\<rparr> < (7 / 10 :: real)"
  by (simp add: float32_of_0_7 build_edges_def columns_def edge_step_def Let_def upt_rec)

section \<open>\<open>normalize_positions\<close> on concrete positions\<close>

text \<open>
  The \<^verbatim>\<open>float64\<close> array \<^verbatim>\<open>[[0, 0, 0], [0.1, 0.3, 0]]\<close>, step by step: the roundings of
  the sums, the means, the centred positions, the scale factor and the products.
\<close>

lemma f64_d1: "float_round Float64 (3602879701896397 / 36028797018963968) = 3602879701896397 / 36028797018963968"
  by (subst float_round_at[where e = "- 4"]) (simp_all add: pow2_def round_half_even_def Let_def)

lemma f64_d3: "float_round Float64 (5404319552844595 / 18014398509481984) = 5404319552844595 / 18014398509481984"
  by (subst float_round_at[where e = "- 2"]) (simp_all add: pow2_def round_half_even_def Let_def)

lemma f64_m1: "float_round Float64 (3602879701896397 / 72057594037927936) = 3602879701896397 / 72057594037927936"
  by (subst float_round_at[where e = "- 5"]) (simp_all add: pow2_def round_half_even_def Let_def)

lemma f64_m3: "float_round Float64 (5404319552844595 / 36028797018963968) = 5404319552844595 / 36028797018963968"
  by (subst float_round_at[where e = "- 3"]) (simp_all add: pow2_def round_half_even_def Let_def)

lemma f64_m1n: "float_round Float64 (- (3602879701896397 / 72057594037927936)) = - (3602879701896397 / 72057594037927936)"
  by (subst float_round_at[where e = "- 5"]) (simp_all add: pow2_def round_half_even_def Let_def)

lemma f64_m3n: "float_round Float64 (- (5404319552844595 / 36028797018963968)) = - (5404319552844595 / 36028797018963968)"
  by (subst float_round_at[where e = "- 3"]) (simp_all add: pow2_def round_half_even_def Let_def)

lemma sums: "axis_sums Float64 [(0, 0, 0), (double_0_1, double_0_3, 0)] = (double_0_1, double_0_3, 0)"
  by (simp add: axis_sums_def float_sum_def float_round_zero double_0_1_def double_0_3_def f64_d1 f64_d3)

lemma mean: "axis_mean Float64 [(0, 0, 0), (double_0_1, double_0_3, 0)] =
   (3602879701896397 / 72057594037927936, 5404319552844595 / 36028797018963968, 0)"
  by (simp add: axis_mean_def sums) (simp add: float_round_zero double_0_1_def double_0_3_def f64_m1 f64_m3)

lemma centered: "center Float64 [(0, 0, 0), (double_0_1, double_0_3, 0)] =
   [(- (3602879701896397 / 72057594037927936), - (5404319552844595 / 36028797018963968), 0),
    (3602879701896397 / 72057594037927936, 5404319552844595 / 36028797018963968, 0)]"
  by (simp add: center_def mean) (simp add: float_round_zero double_0_1_def double_0_3_def f64_m1 f64_m3 f64_m1n f64_m3n)

lemma mx: "max_abs_coord
   [(- (3602879701896397 / 72057594037927936), - (5404319552844595 / 36028797018963968), 0),
    (3602879701896397 / 72057594037927936, 5404319552844595 / 36028797018963968, 0)] =
    5404319552844595 / 36028797018963968"
  by (simp add: max_abs_coord_def coords_def)

lemma f64_k: "float_round Float64 (50 / (5404319552844595 / 36028797018963968)) =
    2932031007402667 / 8796093022208"
  by (subst float_round_at[where e = "8"]) (simp_all add: pow2_def round_half_even_def Let_def)

lemma f64_q1: "float_round Float64 (3602879701896397 / 72057594037927936 * (2932031007402667 / 8796093022208)) =
    4691249611844267 / 281474976710656"
  by (subst float_round_at[where e = "4"]) (simp_all add: pow2_def round_half_even_def Let_def)

lemma f64_q1n: "float_round Float64 (- (3602879701896397 / 72057594037927936) * (2932031007402667 / 8796093022208)) =
    - (4691249611844267 / 281474976710656)"
  by (subst float_round_at[where e = "4"]) (simp_all add: pow2_def round_half_even_def Let_def)

lemma f64_q3: "float_round Float64 (5404319552844595 / 36028797018963968 * (2932031007402667 / 8796093022208)) =
    7036874417766401 / 140737488355328"
  by (subst float_round_at[where e = "5"]) (simp_all add: pow2_def round_half_even_def Let_def)

lemma f64_q3n: "float_round Float64 (- (5404319552844595 / 36028797018963968) * (2932031007402667 / 8796093022208)) =
    - (7036874417766401 / 140737488355328)"
  by (subst float_round_at[where e = "5"]) (simp_all add: pow2_def round_half_even_def Let_def)

lemma scaled: "scale Float64 (2932031007402667 / 8796093022208)
   [(- (3602879701896397 / 72057594037927936), - (5404319552844595 / 36028797018963968), 0),
    (3602879701896397 / 72057594037927936, 5404319552844595 / 36028797018963968, 0)] =
   [(- (4691249611844267 / 281474976710656), - (7036874417766401 / 140737488355328), 0),
    (4691249611844267 / 281474976710656, 7036874417766401 / 140737488355328, 0)]"
  unfolding scale_def list.map prod.case
  by (simp only: f64_q1 f64_q1n f64_q3 f64_q3n mult_zero_left float_round_zero)

text \<open>
  Claim C10 at its failing input: the \<^verbatim>\<open>float64\<close> positions
  \<^verbatim>\<open>[[0, 0, 0], [0.1, 0.3, 0]]\<close> and the range \<open>(-50, 50)\<close>.  The centred positions have
  the largest absolute coordinate \<open>0.15\<close>; the scale factor \<^verbatim>\<open>50 / 0.15\<close> rounds up to
  \<open>333.33333333333337\<close>, and the product with \<open>0.15\<close> rounds to \<open>50 + 2\<^sup>-\<^sup>4\<^sup>7\<close>, printed
  \<open>50.00000000000001\<close>.  The result has that coordinate and its negative: both lie
  outside \<open>[-50, 50]\<close>, and the largest absolute coordinate is not 50.
\<close>

theorem normalize_positions_leaves_range:
  "normalize_positions Float64 [(0, 0, 0), (double_0_1, double_0_3, 0)] position_range =
     Inr [(- (4691249611844267 / 281474976710656), - (7036874417766401 / 140737488355328), 0),
          (4691249611844267 / 281474976710656, 7036874417766401 / 140737488355328, 0)] \<and>
   (50 :: real) < 7036874417766401 / 140737488355328 \<and>
   - (7036874417766401 / 140737488355328) < (- 50 :: real)"
proof -
  have "normalize_positions Float64 [(0, 0, 0), (double_0_1, double_0_3, 0)] position_range =
     Inr (scale Float64 (float_round Float64 (50 / (5404319552844595 / 36028797018963968)))
       [(- (3602879701896397 / 72057594037927936), - (5404319552844595 / 36028797018963968), 0),
        (3602879701896397 / 72057594037927936, 5404319552844595 / 36028797018963968, 0)])"
    unfolding normalize_positions_def Let_def centered mx by (simp add: position_range_def)
  then show ?thesis unfolding f64_k scaled by simp
qed

section \<open>\<open>compute_edges\<close> on concrete vectors\<close>

text \<open>
  The cosine of 10 degrees, from \<open>cos (3 x) = 4 cos\<^sup>3 x - 3 cos x\<close> at \<open>x = \<pi>/18\<close> and
  \<open>cos (\<pi>/6) = \<surd>3 / 2\<close>: the cubic is increasing from \<open>1/2\<close> on.
\<close>

lemma sqrt3_bounds: "172 / 100 < sqrt 3" "sqrt 3 < 175 / 100"
proof -
  show "172 / 100 < sqrt 3" by (rule real_less_rsqrt) (simp add: power2_eq_square)
  show "sqrt 3 < 175 / 100" by (rule real_less_lsqrt) (simp_all add: power2_eq_square)
qed

lemma cos10_cubic: "4 * cos (pi / 18) ^ 3 - 3 * cos (pi / 18) = sqrt 3 / 2"
  using cos_treble_cos[of "pi / 18"] cos_30 by simp

lemma cos10_ge_half: "1 / 2 \<le> cos (pi / 18)"
proof -
  have "cos (pi / 3) \<le> cos (pi / 18)" by (rule cos_monotone_0_pi_le) simp_all
  then show ?thesis by (simp add: cos_60)
qed

lemma cubic_mono:
  fixes a b :: real
  assumes "1 / 2 \<le> b" and "b \<le> a"
  shows "4 * b ^ 3 - 3 * b \<le> 4 * a ^ 3 - 3 * a"
proof -
  have "0 \<le> (a - b) * (4 * (a * a + a * b + b * b) - 3)"
  proof (rule mult_nonneg_nonneg)
    show "0 \<le> a - b" using assms by simp
    have "1 / 4 \<le> b * b" using assms(1) mult_mono[of "1/2" b "1/2" b] by simp
    moreover have "1 / 4 \<le> a * b" using assms mult_mono[of "1/2" a "1/2" b] by simp
    moreover have "1 / 4 \<le> a * a" using assms mult_mono[of "1/2" a "1/2" a] by simp
    ultimately show "0 \<le> 4 * (a * a + a * b + b * b) - 3" by simp
  qed
  also have "(a - b) * (4 * (a * a + a * b + b * b) - 3) = (4 * a ^ 3 - 3 * a) - (4 * b ^ 3 - 3 * b)"
    by (simp add: algebra_simps power3_eq_cube)
  finally show ?thesis by simp
qed

lemma cos10_bounds: "984 / 1000 < cos (pi / 18)" "cos (pi / 18) < 986 / 1000"
proof -
  let ?c = "cos (pi / 18)"
  show "984 / 1000 < ?c"
  proof (rule ccontr)
    assume "\<not> 984 / 1000 < ?c"
    then have "?c \<le> 984 / 1000" by simp
    then have "4 * ?c ^ 3 - 3 * ?c \<le> 4 * (984 / 1000) ^ 3 - 3 * (984 / 1000 :: real)"
      using cos10_ge_half by (intro cubic_mono) simp_all
    also have "\<dots> < 86 / 100" by (simp add: power3_eq_cube)
    finally show False using cos10_cubic sqrt3_bounds(1) by simp
  qed
  show "?c < 986 / 1000"
  proof (rule ccontr)
    assume "\<not> ?c < 986 / 1000"
    then have "986 / 1000 \<le> ?c" by simp
    then have "4 * (986 / 1000) ^ 3 - 3 * (986 / 1000 :: real) \<le> 4 * ?c ^ 3 - 3 * ?c"
      by (intro cubic_mono) simp_all
    moreover have "(875 / 1000 :: real) < 4 * (986 / 1000) ^ 3 - 3 * (986 / 1000)"
      by (simp add: power3_eq_cube)
    ultimately show False using cos10_cubic sqrt3_bounds(2) by simp
  qed
qed

lemma sin10_bounds: "0 < sin (pi / 18)" "sin (pi / 18) < 1 / 2"
proof -
  show pos: "0 < sin (pi / 18)" by (rule sin_gt_zero) simp_all
  have "sin (pi / 18) < sin (pi / 6)"
    by (rule sin_monotone_2pi) simp_all
  then show "sin (pi / 18) < 1 / 2" by (simp add: sin_30)
qed

lemma four_vectors_edges:
  fixes c s :: real
  assumes unit: "c * c + s * s = 1" and s0: "0 < s" and sc: "s < 1 / 2" and c1: "1 / 2 \<le> c" and c2: "c < 1"
  shows "compute_edges \<lparr>top_k = 1, min_similarity = 1 / 2, deduplicate = True\<rparr> dt
           [[1, 0], [c, s], [0, 1], [- 1, 0]] = Inr [\<lparr>source = 0, target = 1, weight = c\<rparr>]"
proof -
  let ?X = "[[1, 0], [c, s], [0, 1], [- 1, 0 :: real]]"
  have n: "unit_norm [1, 0] = 1" "unit_norm [c, s] = 1" "unit_norm [0, 1] = 1" "unit_norm [- 1, 0] = 1"
    by (simp_all add: unit_norm_def dot_def unit)
  have d0: "map (cosine_distance [1, 0]) ?X = [0, 1 - c, 1, 2]"
    by (simp add: cosine_distance_def n) (simp add: dot_def)
  have d1: "map (cosine_distance [c, s]) ?X = [1 - c, 0, 1 - s, 1 + c]"
    by (simp add: cosine_distance_def n) (simp add: dot_def unit)
  have d2: "map (cosine_distance [0, 1]) ?X = [1, 1 - s, 0, 1]"
    by (simp add: cosine_distance_def n) (simp add: dot_def)
  have d3: "map (cosine_distance [- 1, 0]) ?X = [2, 1 + c, 1, 0]"
    by (simp add: cosine_distance_def n) (simp add: dot_def)
  have idx: "[0..<length ?X] = [0, 1, 2, 3]" by (simp add: upt_rec)
  have o0: "neighbor_order ?X [1, 0] 2 = [0, 1]"
    using d0 c1 c2 unfolding neighbor_order_def idx by (simp add: numeral_2_eq_2)
  have o1: "neighbor_order ?X [c, s] 2 = [1, 0]"
    using d1 c1 c2 s0 sc unfolding neighbor_order_def idx by (simp add: numeral_2_eq_2)
  have o2: "neighbor_order ?X [0, 1] 2 = [2, 1]"
    using d2 c1 c2 s0 sc unfolding neighbor_order_def idx by (simp add: numeral_2_eq_2)
  have o3: "neighbor_order ?X [- 1, 0] 2 = [3, 2]"
    using d3 c1 c2 s0 sc unfolding neighbor_order_def idx by (simp add: numeral_2_eq_2)
  have k: "kneighbors ?X 2 = Inr ([[0, 1 - c], [0, 1 - c], [0, 1 - s], [0, 1]], [[0, 1], [1, 0], [2, 1], [3, 2]])"
    using d0 d1 d2 d3 by (simp add: kneighbors_def o0 o1 o2 o3)
  show ?thesis
    using s0 sc c1 c2
    by (simp add: compute_edges_def k build_edges_def columns_def edge_step_def as_dtype_half
        Let_def upt_rec)
qed

text \<open>
  Claim C9.  For the unit vectors of the plane at 0, 10, 90 and 180 degrees (in this
  order, indices 0 to 3), \<^verbatim>\<open>top_k = 1\<close>, \<^verbatim>\<open>min_similarity = 0.5\<close> and \<^verbatim>\<open>deduplicate\<close> set,
  \<^verbatim>\<open>compute_edges\<close> returns exactly one edge, from index 0 to index 1, with weight
  \<open>cos 10\<degree>\<close>, which lies within 0.001 of 0.985.  No tie between distances decides
  a neighbour here, and the threshold \<open>0.5\<close> is the same number in both dtypes.  (Real
  arithmetic stands for the floats of the vectors and distances.)
\<close>

theorem four_unit_vectors_one_edge:
  "compute_edges \<lparr>top_k = 1, min_similarity = 1 / 2, deduplicate = True\<rparr> dt
     (map unit_vector [0, pi / 18, pi / 2, pi]) =
     Inr [\<lparr>source = 0, target = 1, weight = cos (pi / 18)\<rparr>] \<and>
   \<bar>cos (pi / 18) - 985 / 1000\<bar> < 1 / 1000"
proof -
  have vs: "map unit_vector [0, pi / 18, pi / 2, pi] =
      [[1, 0], [cos (pi / 18), sin (pi / 18)], [0, 1], [- 1, 0]]"
    by (simp add: unit_vector_def)
  have unit: "cos (pi / 18) * cos (pi / 18) + sin (pi / 18) * sin (pi / 18) = 1"
    using sin_cos_squared_add[of "pi / 18"] by (simp add: power2_eq_square)
  have c1: "1 / 2 \<le> cos (pi / 18)" by (rule cos10_ge_half)
  have c2: "cos (pi / 18) < 1" using cos10_bounds(2) by simp
  have "compute_edges \<lparr>top_k = 1, min_similarity = 1 / 2, deduplicate = True\<rparr> dt
     (map unit_vector [0, pi / 18, pi / 2, pi]) =
     Inr [\<lparr>source = 0, target = 1, weight = cos (pi / 18)\<rparr>]"
    unfolding vs using unit sin10_bounds c1 c2 by (rule four_vectors_edges)
  moreover have "\<bar>cos (pi / 18) - 985 / 1000\<bar> < 1 / 1000"
    using cos10_bounds by linarith
  ultimately show ?thesis by simp
qed

text \<open>
  The loops skip column 0 of the index array and take column 1 as it is: where column 1
  of row \<open>i\<close> holds \<open>i\<close> itself, the edge from \<open>i\<close> to \<open>i\<close> is emitted.
\<close>

lemma build_edges_self_loop:
  "build_edges \<lparr>top_k = 1, min_similarity = 1 / 4, deduplicate = True\<rparr> dt 2
     [[0, 1], [0, 1]] [[1, 1], [1, 1]] =
     Inr [\<lparr>source = 0, target = 1, weight = 1\<rparr>, \<lparr>source = 1, target = 1, weight = 1\<rparr>]"
  by (simp add: build_edges_def columns_def edge_step_def as_dtype_quarter Let_def upt_rec)

text \<open>
  Claim C4 at its failing input: two identical unit vectors, \<^verbatim>\<open>top_k = 1\<close>, in either
  dtype.  Both
  vectors are at distance 0 from vector 1, so the neighbours of vector 1, nearest first
  and equal distances in ascending index, are \<open>[0, 1]\<close>: column 0, which the loop skips
  as ``self'', is vector 0, and column 1 is vector 1 itself.  The result holds the edge
  from 1 to 1.
\<close>

theorem duplicate_vectors_self_loop:
  "compute_edges \<lparr>top_k = 1, min_similarity = 1 / 4, deduplicate = True\<rparr> dt [[1, 0], [1, 0]] =
     Inr [\<lparr>source = 0, target = 1, weight = 1\<rparr>, \<lparr>source = 1, target = 1, weight = 1\<rparr>]"
  by (simp add: compute_edges_def kneighbors_def neighbor_order_def cosine_distance_def
      unit_norm_def dot_def build_edges_def columns_def edge_step_def as_dtype_quarter
      Let_def upt_rec)

end
